theory Spec2Isabelle
  imports
    Complex_Main
    "HOL-Library.Multiset"
    "HOL-Library.AList"
    "HOL-Library.Char_ord"
    "HOL-Library.List_Lexorder"
    "HOL-Library.Product_Lexorder"
begin

section \<open>Data model\<close>

text \<open>
  One row of the loaded table, with the columns of \<^verbatim>\<open>financial_metrics.csv\<close> that
  \<^verbatim>\<open>Dashboard.py\<close> names. \<^verbatim>\<open>Symbol\<close> is a string after \<^verbatim>\<open>astype(str)\<close>; every
  other column may hold pandas' missing value (\<^verbatim>\<open>NaN\<close>, \<^verbatim>\<open>NaT\<close>), which is
  \<open>None\<close> here. A timestamp is an integer (a count of days or nanoseconds, the unit
  plays no role); a float column holds exact rationals, only compared with one another
  in the functions of the derived metrics.
\<close>

record row =
  Symbol :: string
  Date :: "int option"
  LTP :: "rat option"
  chng :: "rat option"
  Sector :: "string option"
  Industry :: "string option"
  Market_Cap :: "rat option"
  ROE :: "rat option"
  ROCE :: "rat option"
  PE_Ratio :: "rat option"
  Book_Value :: "rat option"
  Dividend_Yield :: "rat option"
  About :: "string option"

section \<open>Sorting a frame by one column\<close>

text \<open>
  \<^verbatim>\<open>DataFrame.sort_values\<close> on a single column runs with \<^verbatim>\<open>kind='quicksort'\<close>
  unless told otherwise, and pandas documents that kind as not stable: the result is
  some rearrangement of the rows that is ordered by the key, missing keys last
  (\<^verbatim>\<open>na_position='last'\<close>), and the order of rows with equal keys is left to the
  sorting routine. The functions below therefore take the routine as a parameter and
  the theorems assume of it exactly that contract.
\<close>

definition asc_na_last :: "'a::linorder option \<Rightarrow> 'a option \<Rightarrow> bool" where
  "asc_na_last a b =
     (case b of None \<Rightarrow> True
      | Some y \<Rightarrow> (case a of None \<Rightarrow> False | Some x \<Rightarrow> x \<le> y))"

definition desc_na_last :: "'a::linorder option \<Rightarrow> 'a option \<Rightarrow> bool" where
  "desc_na_last a b =
     (case b of None \<Rightarrow> True
      | Some y \<Rightarrow> (case a of None \<Rightarrow> False | Some x \<Rightarrow> y \<le> x))"

definition sorts_by_date :: "(row list \<Rightarrow> row list) \<Rightarrow> bool" where
  "sorts_by_date sort_values \<longleftrightarrow>
     (\<forall>xs. mset (sort_values xs) = mset xs \<and>
           sorted_wrt (\<lambda>a b. asc_na_last (Date a) (Date b)) (sort_values xs))"

text \<open>
  A routine that meets the contract: the stable insertion sort of the library on a key
  that puts missing dates after all others.
\<close>

definition date_key :: "row \<Rightarrow> nat \<times> int" where
  "date_key r = (case Date r of None \<Rightarrow> (1, 0) | Some t \<Rightarrow> (0, t))"

definition stable_sort_by_date :: "row list \<Rightarrow> row list" where
  "stable_sort_by_date xs = sort_key date_key xs"

section \<open>Historical highs\<close>

text \<open>
  \<^verbatim>\<open>Series.cummax()\<close> with its default \<^verbatim>\<open>skipna=True\<close>: the running maximum of the
  values seen so far, missing values skipped, and a missing value at every position
  where the input is missing.
\<close>

fun cummax_from :: "rat option \<Rightarrow> rat option list \<Rightarrow> rat option list" where
  "cummax_from m [] = []"
| "cummax_from m (None # xs) = None # cummax_from m xs"
| "cummax_from m (Some x # xs) =
     (let m' = (case m of None \<Rightarrow> x | Some y \<Rightarrow> max y x)
      in Some m' # cummax_from (Some m') xs)"

definition cummax :: "rat option list \<Rightarrow> rat option list" where
  "cummax xs = cummax_from None xs"

text \<open>Elementwise \<^verbatim>\<open>==\<close> of two float columns: a missing value equals nothing.\<close>

definition eq_na :: "rat option \<Rightarrow> rat option \<Rightarrow> bool" where
  "eq_na a b = (case a of None \<Rightarrow> False | Some x \<Rightarrow> b = Some x)"

text \<open>
  \<^verbatim>\<open>get_stock_highs(data, symbol)\<close>. The result keeps the added column
  \<^verbatim>\<open>High_LTP\<close> as the second component of each pair. Where the function returns
  \<^verbatim>\<open>pd.DataFrame()\<close> the result is the empty list: the caller tests the result with
  \<^verbatim>\<open>.empty\<close> before it reads a column of it.
\<close>

definition select_symbol :: "row list \<Rightarrow> string \<Rightarrow> row list" where
  \<comment> \<open>\<^verbatim>\<open>data[data['Symbol'] == symbol]\<close>\<close>
  "select_symbol data symbol = filter (\<lambda>r. Symbol r = symbol) data"

definition get_stock_highs ::
  "(row list \<Rightarrow> row list) \<Rightarrow> row list \<Rightarrow> string \<Rightarrow> (row \<times> rat option) list" where
  "get_stock_highs sort_values data symbol =
     (if symbol \<noteq> [] then
        (let stock_data = select_symbol data symbol in
         if stock_data \<noteq> [] then
           (let stock_data = sort_values stock_data;
                High_LTP = cummax (map LTP stock_data);
                high_dates = filter (\<lambda>(r, h). eq_na (LTP r) h) (zip stock_data High_LTP)
            in high_dates)
         else [])
      else [])"

text \<open>
  The specification's wording of the same view, on rows already filtered and ordered:
  the rows whose price equals the running maximum of the prices up to and including
  that row.
\<close>

definition running_max :: "row list \<Rightarrow> nat \<Rightarrow> rat" where
  "running_max ys i = Max (set (List.map_filter LTP (take (Suc i) ys)))"

definition is_high :: "row list \<Rightarrow> nat \<Rightarrow> bool" where
  "is_high ys i \<longleftrightarrow> LTP (ys ! i) = Some (running_max ys i)"

definition historicalHighs_spec :: "row list \<Rightarrow> row list" where
  "historicalHighs_spec ys = map (nth ys) (filter (is_high ys) [0..<length ys])"

section \<open>Latest snapshot per symbol\<close>

text \<open>
  \<^verbatim>\<open>filtered_data['Symbol'].value_counts().to_dict()\<close>: a dictionary from each symbol
  to the number of times it occurs, built by counting the column from left to right.
\<close>

definition count_one :: "(string \<rightharpoonup> nat) \<Rightarrow> string \<Rightarrow> (string \<rightharpoonup> nat)" where
  "count_one d s = d(s \<mapsto> (case d s of None \<Rightarrow> 1 | Some n \<Rightarrow> n + 1))"

definition value_counts :: "string list \<Rightarrow> (string \<rightharpoonup> nat)" where
  "value_counts col = foldl count_one Map.empty col"

text \<open>
  \<^verbatim>\<open>sort_values(["Today's Date", '%chng'], ascending=[False, False])\<close>. With more than
  one column pandas does not use \<^verbatim>\<open>kind\<close>: it turns each column into integer codes,
  the missing value getting the largest code whatever the direction, and orders the
  rows with \<^verbatim>\<open>np.lexsort\<close>, which is stable. The key below is that code: missing
  values after all others, present values in descending order.
\<close>

definition desc_key :: "'a::{uminus,zero} option \<Rightarrow> nat \<times> 'a" where
  "desc_key v = (case v of None \<Rightarrow> (1, 0) | Some x \<Rightarrow> (0, - x))"

definition latest_first_key :: "row \<Rightarrow> (nat \<times> int) \<times> (nat \<times> rat)" where
  "latest_first_key r = (desc_key (Date r), desc_key (chng r))"

definition sort_latest_first :: "row list \<Rightarrow> row list" where
  "sort_latest_first df = sort_key latest_first_key df"

text \<open>
  \<^verbatim>\<open>.groupby('Symbol').first().reset_index()\<close>. The groups come out in ascending order
  of the symbol (\<^verbatim>\<open>sort=True\<close>), each group keeps the order its rows have in the
  frame, and \<^verbatim>\<open>first()\<close> computes, for each column on its own, the first entry of
  the group that is not missing (pandas: "Compute the first entry of each column within
  each group. Defaults to skipping NA elements."); a column that is missing in the whole
  group stays missing.
\<close>

fun first_valid :: "'a option list \<Rightarrow> 'a option" where
  "first_valid [] = None"
| "first_valid (None # vs) = first_valid vs"
| "first_valid (Some v # vs) = Some v"

definition group_first :: "string \<Rightarrow> row list \<Rightarrow> row" where
  "group_first s g =
     \<lparr>Symbol = s,
      Date = first_valid (map Date g),
      LTP = first_valid (map LTP g),
      chng = first_valid (map chng g),
      Sector = first_valid (map Sector g),
      Industry = first_valid (map Industry g),
      Market_Cap = first_valid (map Market_Cap g),
      ROE = first_valid (map ROE g),
      ROCE = first_valid (map ROCE g),
      PE_Ratio = first_valid (map PE_Ratio g),
      Book_Value = first_valid (map Book_Value g),
      Dividend_Yield = first_valid (map Dividend_Yield g),
      About = first_valid (map About g)\<rparr>"

definition groupby_symbol_first :: "row list \<Rightarrow> row list" where
  "groupby_symbol_first df =
     map (\<lambda>s. group_first s (select_symbol df s)) (sort (remdups (map Symbol df)))"

text \<open>
  The last step, \<^verbatim>\<open>sort_values('count', ascending=False)\<close>, sorts on one column and
  so runs the default \<^verbatim>\<open>quicksort\<close>; it is a parameter with the contract of a
  descending sort. The column \<^verbatim>\<open>count\<close> is the second component of each pair; a
  symbol that the dictionary lacks would get the missing value from \<^verbatim>\<open>Series.map\<close>.
\<close>

type_synonym counted_row = "row \<times> nat option"

definition sorts_by_count_desc :: "(counted_row list \<Rightarrow> counted_row list) \<Rightarrow> bool" where
  "sorts_by_count_desc sort_values \<longleftrightarrow>
     (\<forall>xs. mset (sort_values xs) = mset xs \<and>
           sorted_wrt (\<lambda>a b. desc_na_last (snd a) (snd b)) (sort_values xs))"

definition get_latest_stock_data ::
  "(counted_row list \<Rightarrow> counted_row list) \<Rightarrow> row list \<Rightarrow> counted_row list" where
  "get_latest_stock_data sort_values filtered_data =
     (let stock_counts = value_counts (map Symbol filtered_data);
          latest_data = groupby_symbol_first (sort_latest_first filtered_data);
          latest_data = map (\<lambda>r. (r, stock_counts (Symbol r))) latest_data
      in sort_values latest_data)"

text \<open>
  Two routines that meet the contract. The first is stable. The second sorts ascending
  and reverses, so that rows with equal counts come out in the reverse of the order
  they went in.
\<close>

definition count_desc_key :: "counted_row \<Rightarrow> nat \<times> int" where
  "count_desc_key x = desc_key (map_option int (snd x))"

definition stable_sort_by_count :: "counted_row list \<Rightarrow> counted_row list" where
  "stable_sort_by_count xs = sort_key count_desc_key xs"

definition count_asc_key :: "counted_row \<Rightarrow> nat \<times> nat" where
  "count_asc_key x = (case snd x of None \<Rightarrow> (0, 0) | Some n \<Rightarrow> (1, n))"

definition reversing_sort_by_count :: "counted_row list \<Rightarrow> counted_row list" where
  "reversing_sort_by_count xs = rev (sort_key count_asc_key xs)"

text \<open>
  Two auxiliary notions for the proofs: the entry that \<^verbatim>\<open>cummax\<close> appends when the column
  grows by one value, and the body of \<^verbatim>\<open>get_stock_highs\<close> after selection and sorting.
\<close>

definition snoc_max :: "rat option \<Rightarrow> rat option list \<Rightarrow> rat option \<Rightarrow> rat option" where
  "snoc_max m xs x = (case x of None \<Rightarrow> None
      | Some v \<Rightarrow> Some (Max (insert v (set_option m \<union> set (List.map_filter id xs)))))"

definition highs_of :: "row list \<Rightarrow> (row \<times> rat option) list" where
  "highs_of ys = filter (\<lambda>(r, h). eq_na (LTP r) h) (zip ys (cummax (map LTP ys)))"

text \<open>Rows for examples: a symbol, a date and a price, every other column missing.\<close>

definition price_row :: "string \<Rightarrow> int \<Rightarrow> rat \<Rightarrow> row" where
  "price_row s d p =
     \<lparr>Symbol = s, Date = Some d, LTP = Some p, chng = None, Sector = None,
      Industry = None, Market_Cap = None, ROE = None, ROCE = None, PE_Ratio = None,
      Book_Value = None, Dividend_Yield = None, About = None\<rparr>"

definition example_prices :: "row list" where
  "example_prices =
     [price_row ''ACME'' 3 12, price_row ''OTHER'' 1 99, price_row ''ACME'' 1 10,
      price_row ''ACME'' 5 15, price_row ''ACME'' 2 12, price_row ''ACME'' 4 9]"

text \<open>
  For the statements on the latest snapshot: the symbol and the count of a row of the
  result, and the frame \<^verbatim>\<open>latest_data\<close> as it is before the last sort.
\<close>

definition symbol_count :: "counted_row \<Rightarrow> string \<times> nat option" where
  "symbol_count x = (Symbol (fst x), snd x)"

definition counted_latest :: "row list \<Rightarrow> counted_row list" where
  "counted_latest df =
     map (\<lambda>r. (r, value_counts (map Symbol df) (Symbol r)))
       (groupby_symbol_first (sort_latest_first df))"

text \<open>A row without a missing value in any column.\<close>

definition complete :: "row \<Rightarrow> bool" where
  "complete r \<longleftrightarrow>
     Date r \<noteq> None \<and> LTP r \<noteq> None \<and> chng r \<noteq> None \<and> Sector r \<noteq> None \<and>
     Industry r \<noteq> None \<and> Market_Cap r \<noteq> None \<and> ROE r \<noteq> None \<and> ROCE r \<noteq> None \<and>
     PE_Ratio r \<noteq> None \<and> Book_Value r \<noteq> None \<and> Dividend_Yield r \<noteq> None \<and> About r \<noteq> None"

text \<open>
  A table in which the newest row of ACME lacks the market capitalisation that an older
  row has, and the row that \<^verbatim>\<open>first()\<close> makes of the two.
\<close>

definition stale_example :: "row list" where
  "stale_example =
     [(price_row ''ACME'' 1 100)\<lparr>chng := Some (1/2), Market_Cap := Some 50000000\<rparr>,
      (price_row ''ACME'' 2 110)\<lparr>chng := Some (3/2)\<rparr>]"

definition mixed_row :: row where
  "mixed_row = (price_row ''ACME'' 2 110)\<lparr>chng := Some (3/2), Market_Cap := Some 50000000\<rparr>"

text \<open>
  Two tables for the order of the result: one whose symbol with the most rows is not
  the first in the order of the symbols, and one with four symbols, two of one row each
  and two of two rows each.
\<close>

definition late_leader :: "row list" where
  "late_leader =
     [price_row ''A'' 1 10, price_row ''B'' 1 20, price_row ''B'' 2 21, price_row ''B'' 3 22]"

definition tied_symbols :: "row list" where
  "tied_symbols =
     [price_row ''S00'' 1 10, price_row ''S01'' 1 20, price_row ''S02'' 1 30,
      price_row ''S02'' 2 31, price_row ''S03'' 1 40, price_row ''S03'' 2 41]"

section \<open>Strings\<close>

text \<open>
  A Python string is modelled by its UTF-8 bytes. The currency glyph that the source
  writes in its literals is not the rupee sign: the file holds the three characters
  U+201A, U+00C7, U+03C0 (what the UTF-8 bytes of the rupee sign become when they are
  read as Mac Roman), seven bytes in UTF-8. The rupee sign itself, U+20B9, is three
  bytes.
\<close>

definition source_glyph :: string where
  "source_glyph = [CHR 0xE2, CHR 0x80, CHR 0x9A, CHR 0xC3, CHR 0x87, CHR 0xCF, CHR 0x80]"

definition rupee :: string where
  "rupee = [CHR 0xE2, CHR 0x82, CHR 0xB9]"

text \<open>
  \<^verbatim>\<open>str.strip()\<close> and \<^verbatim>\<open>str.replace(old, new)\<close>. The white space is the ASCII part of
  what Python strips; \<^verbatim>\<open>replace\<close> substitutes the occurrences of \<^verbatim>\<open>old\<close> from left
  to right without overlap, and the source never calls it with an empty \<^verbatim>\<open>old\<close>.
\<close>

definition is_space :: "char \<Rightarrow> bool" where
  "is_space c \<longleftrightarrow> c \<in> set [CHR 0x09, CHR 0x0A, CHR 0x0B, CHR 0x0C, CHR 0x0D,
     CHR 0x1C, CHR 0x1D, CHR 0x1E, CHR 0x1F, CHR 0x20]"

definition strip :: "string \<Rightarrow> string" where
  "strip s = rev (dropWhile is_space (rev (dropWhile is_space s)))"

function replace :: "string \<Rightarrow> string \<Rightarrow> string \<Rightarrow> string" where
  "replace old new s =
     (if s = [] \<or> old = [] then s
      else if take (length old) s = old then new @ replace old new (drop (length old) s)
      else hd s # replace old new (tl s))"
  by pat_completeness auto
termination
  by (relation "measure (\<lambda>(old, new, s). length s)") auto

declare replace.simps [simp del]

definition is_digit :: "char \<Rightarrow> bool" where
  "is_digit c \<longleftrightarrow> c \<in> set ''0123456789''"

definition upper_char :: "char \<Rightarrow> char" where
  "upper_char c =
     (case map_of (zip ''abcdefghijklmnopqrstuvwxyz'' ''ABCDEFGHIJKLMNOPQRSTUVWXYZ'') c of
        None \<Rightarrow> c | Some u \<Rightarrow> u)"

section \<open>Formatter\<close>

text \<open>
  The format specifications \<^verbatim>\<open>.2f\<close> and \<^verbatim>\<open>,.2f\<close>: the sign, the digits of the
  absolute value rounded to hundredths (a tie goes to the even neighbour), with a comma
  between groups of three digits of the whole part when asked. A float is modelled by
  the rational it stands for; on the inputs of the examples, whole numbers and their
  quotients by the scale, the two agree.
\<close>

definition digit_char :: "nat \<Rightarrow> char" where
  "digit_char d = ''0123456789'' ! (d mod 10)"

fun digits_of :: "nat \<Rightarrow> string" where
  "digits_of n = (if n < 10 then [digit_char n] else digits_of (n div 10) @ [digit_char (n mod 10)])"

function group_thousands :: "string \<Rightarrow> string" where
  "group_thousands ds =
     (if length ds \<le> 3 then ds
      else group_thousands (take (length ds - 3) ds) @ CHR '','' # drop (length ds - 3) ds)"
  by pat_completeness auto
termination
  by (relation "measure length") auto

definition round_half_even :: "rat \<Rightarrow> int" where
  "round_half_even q =
     (let f = \<lfloor>q\<rfloor>; d = q - of_int f
      in if d < 1 / 2 then f else if 1 / 2 < d then f + 1 else if even f then f else f + 1)"

definition format_2f :: "bool \<Rightarrow> rat \<Rightarrow> string" where
  "format_2f grouped x =
     (let n = nat (round_half_even (\<bar>x\<bar> * 100));
          whole = digits_of (n div 100);
          cents = [digit_char (n mod 100 div 10), digit_char (n mod 10)]
      in (if x < 0 then ''-'' else '''') @ (if grouped then group_thousands whole else whole)
           @ ''.'' @ cents)"

text \<open>
  \<^verbatim>\<open>format_number(num)\<close>. The argument is a missing value (\<^verbatim>\<open>None\<close>, \<^verbatim>\<open>NaN\<close>), a
  number or a string; \<^verbatim>\<open>float\<close> is Python's conversion of a string, \<open>None\<close> where it
  raises \<^verbatim>\<open>ValueError\<close>, which the function catches.
\<close>

datatype pyvalue = Missing | Num rat | Str string

definition format_number :: "(string \<Rightarrow> rat option) \<Rightarrow> pyvalue \<Rightarrow> string" where
  "format_number float v =
     (case v of
        Missing \<Rightarrow> ''N/A''
      | _ \<Rightarrow>
        (case (case v of Str s \<Rightarrow> float (strip (replace '','' '''' (replace source_glyph '''' s)))
                       | Num x \<Rightarrow> Some x
                       | Missing \<Rightarrow> None) of
           None \<Rightarrow> ''N/A''
         | Some num \<Rightarrow>
             if 10 ^ 9 \<le> num then source_glyph @ format_2f False (num / 10 ^ 9) @ ''B''
             else if 10 ^ 7 \<le> num then source_glyph @ format_2f False (num / 10 ^ 7) @ ''Cr''
             else if 10 ^ 5 \<le> num then source_glyph @ format_2f False (num / 10 ^ 5) @ ''L''
             else source_glyph @ format_2f True num))"

section \<open>Loader\<close>

text \<open>
  A frame as \<^verbatim>\<open>read_csv\<close> returns it: columns in order, each a name and its cells.
  A cell is missing, a text, a number or (after \<^verbatim>\<open>to_datetime\<close>) a timestamp.
  \<^verbatim>\<open>df[name]\<close> raises \<^verbatim>\<open>KeyError\<close> when the column is absent (\<open>None\<close> here);
  \<^verbatim>\<open>df[name] = col\<close> replaces the column or appends it.
\<close>

datatype cell = NaN | Text string | Number rat | Timestamp int

type_synonym column = "cell list"

type_synonym frame = "(string \<times> column) list"

definition get_column :: "frame \<Rightarrow> string \<Rightarrow> column option" where
  "get_column df name = map_of df name"

definition set_column :: "string \<Rightarrow> column \<Rightarrow> frame \<Rightarrow> frame" where
  "set_column name col df = AList.update name col df"

text \<open>
  What the function takes from pandas and the file system, as parameters:
  \<^verbatim>\<open>read_csv\<close> (\<open>None\<close> when it raises), \<^verbatim>\<open>to_datetime\<close> on a column (\<open>None\<close> when it
  raises, which it does on a value it cannot parse), \<^verbatim>\<open>to_numeric\<close> on one string
  (\<open>None\<close> where \<^verbatim>\<open>errors='coerce'\<close> puts the missing value), and the texts that
  \<^verbatim>\<open>astype(str)\<close> gives to a number and to a timestamp.
\<close>

record pandas =
  read_csv :: "string \<Rightarrow> frame option"
  to_datetime :: "column \<Rightarrow> column option"
  to_numeric :: "string \<Rightarrow> rat option"
  float_str :: "rat \<Rightarrow> string"
  timestamp_str :: "int \<Rightarrow> string"

definition astype_str :: "pandas \<Rightarrow> cell \<Rightarrow> string" where
  "astype_str pd c =
     (case c of NaN \<Rightarrow> ''nan'' | Text s \<Rightarrow> s | Number x \<Rightarrow> float_str pd x
      | Timestamp t \<Rightarrow> timestamp_str pd t)"

definition numeric_cell :: "pandas \<Rightarrow> string \<Rightarrow> cell" where
  "numeric_cell pd s = (case to_numeric pd s of None \<Rightarrow> NaN | Some x \<Rightarrow> Number x)"

text \<open>
  \<^verbatim>\<open>.str.extract(r'(\d+(?:\.\d+)?)', expand=False)\<close> on one string: the leftmost match
  of the pattern, found by search. The match starts at the first digit; \<^verbatim>\<open>\d+\<close> takes
  the whole run of digits, and the optional group takes a point with the run of digits
  after it when there is one. \<^verbatim>\<open>\d\<close> is read as the ASCII digits; a text that holds
  another decimal digit of Unicode is outside the model.
\<close>

definition first_number :: "string \<Rightarrow> string option" where
  "first_number s =
     (let t = dropWhile (\<lambda>c. \<not> is_digit c) s;
          whole = takeWhile is_digit t;
          r = dropWhile is_digit t;
          frac = takeWhile is_digit (drop 1 r)
      in if t = [] then None
         else if take 1 r = ''.'' \<and> frac \<noteq> [] then Some (whole @ ''.'' @ frac)
         else Some whole)"

text \<open>The cleaning of one cell of each kind of column, as \<^verbatim>\<open>load_data\<close> chains it.\<close>

definition clean_chng :: "pandas \<Rightarrow> cell \<Rightarrow> cell" where
  "clean_chng pd c = numeric_cell pd (strip (replace ''%'' '''' (astype_str pd c)))"

definition clean_ratio :: "pandas \<Rightarrow> cell \<Rightarrow> cell" where
  "clean_ratio pd c =
     numeric_cell pd (replace source_glyph '''' (replace ''%'' '''' (astype_str pd c)))"

definition clean_market_cap :: "pandas \<Rightarrow> cell \<Rightarrow> cell" where
  "clean_market_cap pd c =
     (case first_number (replace '','' '''' (replace source_glyph '''' (astype_str pd c))) of
        None \<Rightarrow> NaN
      | Some m \<Rightarrow> numeric_cell pd m)"

definition clean_symbol :: "pandas \<Rightarrow> cell \<Rightarrow> cell" where
  "clean_symbol pd c = Text (map upper_char (strip (astype_str pd c)))"

definition numeric_columns :: "string list" where
  "numeric_columns = [''ROE'', ''ROCE'', ''P/E Ratio'', ''Book Value'', ''Dividend Yield'']"

definition clean_numeric_column :: "pandas \<Rightarrow> frame \<Rightarrow> string \<Rightarrow> frame" where
  \<comment> \<open>the body of the loop, with its guard \<^verbatim>\<open>if col in df.columns\<close>\<close>
  "clean_numeric_column pd df col =
     (case get_column df col of
        None \<Rightarrow> df
      | Some c \<Rightarrow> set_column col (map (clean_ratio pd) c) df)"

text \<open>
  \<^verbatim>\<open>load_data(file)\<close>. Every exception inside the \<^verbatim>\<open>try\<close> ends in the handler, which
  reports the error with \<^verbatim>\<open>st.error\<close> and returns \<^verbatim>\<open>pd.DataFrame()\<close>: the result is
  the reported error, if any, and the frame.
\<close>

datatype load_error = ReadError | KeyError string | DateError

definition failed :: "load_error \<Rightarrow> load_error option \<times> frame" where
  "failed e = (Some e, [])"

definition load_data :: "pandas \<Rightarrow> string \<Rightarrow> load_error option \<times> frame" where
  "load_data pd file =
     (case read_csv pd file of
        None \<Rightarrow> failed ReadError
      | Some df \<Rightarrow>
     (case get_column df ''Today's Date'' of
        None \<Rightarrow> failed (KeyError ''Today's Date'')
      | Some dates \<Rightarrow>
     (case to_datetime pd dates of
        None \<Rightarrow> failed DateError
      | Some stamps \<Rightarrow>
     (let df = set_column ''Today's Date'' stamps df in
      case get_column df ''%chng'' of
        None \<Rightarrow> failed (KeyError ''%chng'')
      | Some pct \<Rightarrow>
     (let df = set_column ''%chng'' (map (clean_chng pd) pct) df;
          df = foldl (clean_numeric_column pd) df numeric_columns in
      case get_column df ''Market Cap'' of
        None \<Rightarrow> failed (KeyError ''Market Cap'')
      | Some cap \<Rightarrow>
     (let df = set_column ''Market Cap'' (map (clean_market_cap pd) cap) df in
      case get_column df ''Symbol'' of
        None \<Rightarrow> failed (KeyError ''Symbol'')
      | Some symbols \<Rightarrow>
          (None, set_column ''Symbol'' (map (clean_symbol pd) symbols) df)))))))"

text \<open>
  The columns that \<^verbatim>\<open>load_data\<close> indexes without a guard, and the columns that the
  specification lists as required (its section on external interfaces).
\<close>

definition required_columns :: "string list" where
  "required_columns = [''Today's Date'', ''%chng'', ''Market Cap'', ''Symbol'']"

definition spec_required_columns :: "string list" where
  "spec_required_columns =
     [''Today's Date'', ''Symbol'', ''LTP'', ''%chng'', ''Sector'', ''Industry'', ''Market Cap'',
      ''ROE'', ''ROCE'', ''P/E Ratio'', ''Book Value'', ''Dividend Yield'', ''About'']"

text \<open>
  The specification's wording of the market capitalisation: the leading numeric
  substring, integer or decimal, and its value. A numeric substring is a run of digits,
  or two runs with a point between them; it is the leading one when no digit comes
  before it and it cannot be continued, neither by a digit nor, when it has no point,
  by a point and a digit.
\<close>

definition is_decimal :: "string \<Rightarrow> bool" where
  "is_decimal m \<longleftrightarrow>
     (let whole = takeWhile is_digit m; r = dropWhile is_digit m in
      whole \<noteq> [] \<and> (r = [] \<or> (hd r = CHR ''.'' \<and> tl r \<noteq> [] \<and> list_all is_digit (tl r))))"

definition starts_with_digit :: "string \<Rightarrow> bool" where
  "starts_with_digit s = (case s of [] \<Rightarrow> False | c # _ \<Rightarrow> is_digit c)"

definition leading_number :: "string \<Rightarrow> string \<Rightarrow> bool" where
  "leading_number s m \<longleftrightarrow>
     is_decimal m \<and>
     (\<exists>pre post. s = pre @ m @ post \<and> list_all (\<lambda>c. \<not> is_digit c) pre \<and>
        \<not> starts_with_digit post \<and>
        (CHR ''.'' \<in> set m \<or> \<not> (\<exists>post'. post = CHR ''.'' # post' \<and> starts_with_digit post')))"

definition digit_value :: "char \<Rightarrow> nat" where
  "digit_value c = of_char c - 48"

definition digits_value :: "string \<Rightarrow> nat" where
  "digits_value ds = foldl (\<lambda>n c. 10 * n + digit_value c) 0 ds"

definition decimal_value :: "string \<Rightarrow> rat" where
  "decimal_value m =
     (let whole = takeWhile is_digit m; r = dropWhile is_digit m in
      of_nat (digits_value whole) + of_nat (digits_value (tl r)) / 10 ^ length (tl r))"

text \<open>
  The specification's wording of the whole step: strip the currency glyph, which in the
  specification is the rupee sign, and the thousands separators, extract the leading
  numeric substring and parse it; missing when there is none.
\<close>

definition parseMarketCap_spec :: "pandas \<Rightarrow> string \<Rightarrow> cell" where
  "parseMarketCap_spec pd s =
     (case first_number (replace '','' '''' (replace rupee '''' s)) of
        None \<Rightarrow> NaN
      | Some m \<Rightarrow> numeric_cell pd m)"

text \<open>
  An instance of the parameters for the examples: a file of two rows with the four
  columns that the function indexes, a reader of plain decimals with an optional minus
  sign, and a reader of dates written year-month-day, the timestamp being the number
  that the eight digits spell.
\<close>

definition plain_decimal :: "string \<Rightarrow> rat option" where
  "plain_decimal s =
     (case s of
        [] \<Rightarrow> None
      | c # t \<Rightarrow>
          if c = CHR ''-'' then (if is_decimal t then Some (- decimal_value t) else None)
          else if is_decimal s then Some (decimal_value s) else None)"

definition iso_date :: "string \<Rightarrow> int option" where
  "iso_date s =
     (if length s = 10 \<and> s ! 4 = CHR ''-'' \<and> s ! 7 = CHR ''-'' \<and>
         list_all is_digit (take 4 s @ take 2 (drop 5 s) @ drop 8 s)
      then Some (int (digits_value (take 4 s @ take 2 (drop 5 s) @ drop 8 s)))
      else None)"

definition parse_dates :: "column \<Rightarrow> column option" where
  "parse_dates col =
     (if list_all (\<lambda>c. case c of NaN \<Rightarrow> True | Text s \<Rightarrow> iso_date s \<noteq> None | _ \<Rightarrow> False) col
      then Some (map (\<lambda>c. case c of Text s \<Rightarrow> Timestamp (the (iso_date s)) | _ \<Rightarrow> NaN) col)
      else None)"

definition example_csv :: frame where
  "example_csv =
     [(''Today's Date'', [Text ''2024-01-15'', Text ''2024-01-16'']),
      (''Symbol'', [Text '' acme '', Text ''Acme'']),
      (''%chng'', [Text ''1.5%'', Text ''n/a'']),
      (''Market Cap'', [Text (rupee @ ''1,234.5Cr''), Text ''unknown''])]"

definition example_pandas :: pandas where
  "example_pandas =
     \<lparr>read_csv = (\<lambda>file. if file = ''financial_metrics.csv'' then Some example_csv else None),
      to_datetime = parse_dates,
      to_numeric = plain_decimal,
      float_str = format_2f False,
      timestamp_str = (\<lambda>t. digits_of (nat t))\<rparr>"

section \<open>Frames that lack columns\<close>

text \<open>
  The functions of the derived metrics are modelled above on a table that has the
  columns of the loaded file. The program also builds \<^verbatim>\<open>pd.DataFrame()\<close>, a frame
  with no column and no row: \<^verbatim>\<open>load_data\<close> returns it when it fails and
  \<^verbatim>\<open>get_stock_highs\<close> when it finds nothing. A frame is therefore the names of its
  columns together with its rows, and \<^verbatim>\<open>DataFrame.empty\<close> holds when either of the two
  is empty. The fields of a row under a name that the frame lacks are not read.
\<close>

record dataframe =
  columns :: "string list"
  rows :: "row list"

definition pd_DataFrame :: dataframe where
  "pd_DataFrame = \<lparr>columns = [], rows = []\<rparr>"

definition frame_empty :: "dataframe \<Rightarrow> bool" where
  "frame_empty df \<longleftrightarrow> rows df = [] \<or> columns df = []"

text \<open>
  \<^verbatim>\<open>get_latest_stock_data(filtered_data)\<close> on such a frame. Its first line indexes
  \<^verbatim>\<open>filtered_data['Symbol']\<close> and its second sorts by \<^verbatim>\<open>Today's Date\<close> and
  \<^verbatim>\<open>%chng\<close>; each raises \<^verbatim>\<open>KeyError\<close> with the name of the column when the frame
  lacks it, and the function catches nothing. With the three columns present the
  function is the one modelled above.
\<close>

definition get_latest_stock_data_frame ::
  "(counted_row list \<Rightarrow> counted_row list) \<Rightarrow> dataframe \<Rightarrow> load_error + counted_row list" where
  "get_latest_stock_data_frame sort_values filtered_data =
     (if ''Symbol'' \<in> set (columns filtered_data) then
        if ''Today's Date'' \<in> set (columns filtered_data) then
          if ''%chng'' \<in> set (columns filtered_data) then
            Inr (get_latest_stock_data sort_values (rows filtered_data))
          else Inl (KeyError ''%chng'')
        else Inl (KeyError ''Today's Date'')
      else Inl (KeyError ''Symbol''))"

text \<open>The table of the specification's columns that has no rows.\<close>

definition empty_table :: dataframe where
  "empty_table = \<lparr>columns = spec_required_columns, rows = []\<rparr>"

section \<open>Theorems\<close>

subsection \<open>The running maximum\<close>

lemma length_cummax_from [simp]: "length (cummax_from m xs) = length xs"
  by (induction m xs rule: cummax_from.induct) (auto simp: Let_def)

lemma Max_insert_max:
  fixes y a :: rat
  assumes "finite S"
  shows "Max (insert v (insert (max y a) S)) = Max (insert v (insert y (insert a S)))"
proof -
  have "Max (insert (max y a) S) = Max (insert y (insert a S))"
    using assms by (cases "S = {}") (simp_all add: max.assoc)
  moreover have "Max (insert v (insert (max y a) S)) = max v (Max (insert (max y a) S))"
    using assms by (intro Max_insert) simp_all
  moreover have "Max (insert v (insert y (insert a S))) = max v (Max (insert y (insert a S)))"
    using assms by (intro Max_insert) simp_all
  ultimately show ?thesis by simp
qed

lemma snoc_max_None: "snoc_max m (None # xs) x = snoc_max m xs x"
  by (simp add: snoc_max_def split: option.split)

lemma snoc_max_Some:
  "snoc_max m (Some a # xs) x = snoc_max (Some (case m of None \<Rightarrow> a | Some y \<Rightarrow> max y a)) xs x"
proof (cases x)
  case None
  then show ?thesis by (simp add: snoc_max_def)
next
  case (Some v)
  show ?thesis
  proof (cases m)
    case None
    then show ?thesis using Some by (simp add: snoc_max_def insert_commute del: Max_insert)
  next
    case (Some y)
    then show ?thesis using \<open>x = Some v\<close>
        Max_insert_max [of "set (List.map_filter id xs)" v y a]
      by (simp add: snoc_max_def insert_commute del: Max_insert)
  qed
qed

lemma cummax_from_snoc:
  "cummax_from m (xs @ [x]) = cummax_from m xs @ [snoc_max m xs x]"
proof (induction m xs rule: cummax_from.induct)
  case (1 m)
  then show ?case by (cases x; cases m) (auto simp: snoc_max_def Let_def max.commute)
next
  case (2 m xs)
  then show ?case by (simp add: snoc_max_None)
next
  case (3 m a xs)
  then show ?case by (simp add: snoc_max_Some Let_def)
qed


lemma map_filter_id_map: "List.map_filter id (map f xs) = List.map_filter f xs"
  by (induction xs) (auto simp: map_filter_simps split: option.split)

lemma map_filter_snoc:
  "List.map_filter f (xs @ [x]) = List.map_filter f xs @ (case f x of None \<Rightarrow> [] | Some v \<Rightarrow> [v])"
  by (induction xs) (auto simp: map_filter_simps split: option.split)

lemma is_high_last:
  "is_high (ys @ [y]) (length ys) \<longleftrightarrow> eq_na (LTP y) (snoc_max None (map LTP ys) (LTP y))"
  by (cases "LTP y")
     (auto simp: is_high_def running_max_def eq_na_def snoc_max_def map_filter_snoc
        map_filter_id_map simp del: Max_insert)

lemma is_high_append:
  "i < length ys \<Longrightarrow> is_high (ys @ zs) i \<longleftrightarrow> is_high ys i"
  by (simp add: is_high_def running_max_def nth_append)

lemma highs_of_snoc:
  "highs_of (ys @ [y]) = highs_of ys @
     (if is_high (ys @ [y]) (length ys) then [(y, LTP y)] else [])"
  by (cases "LTP y")
     (auto simp: highs_of_def cummax_def cummax_from_snoc is_high_last eq_na_def)

lemma historicalHighs_spec_snoc:
  "historicalHighs_spec (ys @ [y]) = historicalHighs_spec ys @
     (if is_high (ys @ [y]) (length ys) then [y] else [])"
proof -
  have "filter (is_high (ys @ [y])) [0..<length ys] = filter (is_high ys) [0..<length ys]"
    by (rule filter_cong) (simp_all add: is_high_append)
  moreover have "map (nth (ys @ [y])) (filter (is_high ys) [0..<length ys])
      = map (nth ys) (filter (is_high ys) [0..<length ys])"
    by (rule map_cong) (auto simp: nth_append)
  ultimately show ?thesis
    by (simp add: historicalHighs_spec_def)
qed

lemma highs_of_spec: "map fst (highs_of ys) = historicalHighs_spec ys"
proof (induction ys rule: rev_induct)
  case Nil
  show ?case by (simp add: highs_of_def historicalHighs_spec_def)
next
  case (snoc y ys)
  then show ?case by (simp add: highs_of_snoc historicalHighs_spec_snoc)
qed

lemma highs_of_high: "(r, h) \<in> set (highs_of ys) \<Longrightarrow> h = LTP r \<and> LTP r \<noteq> None"
  by (auto simp: highs_of_def eq_na_def split: option.splits)

subsection \<open>Sorting by date\<close>

lemma asc_na_last_date_key:
  "asc_na_last (Date a) (Date b) \<longleftrightarrow> date_key a \<le> date_key b"
  by (auto simp: asc_na_last_def date_key_def split: option.splits)

lemma sorted_by_date_iff:
  "sorted_wrt (\<lambda>a b. asc_na_last (Date a) (Date b)) xs \<longleftrightarrow> sorted (map date_key xs)"
  by (simp add: sorted_map asc_na_last_date_key)

lemma stable_sort_by_date_ok: "sorts_by_date stable_sort_by_date"
  by (simp add: sorts_by_date_def stable_sort_by_date_def sorted_by_date_iff)

lemma sorts_by_date_Nil: "sorts_by_date srt \<Longrightarrow> srt [] = []"
  by (metis mset_zero_iff sorts_by_date_def)

lemma sorts_by_date_unique:
  assumes "sorts_by_date srt" and "distinct (map date_key xs)"
  shows "srt xs = stable_sort_by_date xs"
proof -
  have m: "mset (srt xs) = mset xs" and s: "sorted (map date_key (srt xs))"
    using assms(1) by (simp_all add: sorts_by_date_def sorted_by_date_iff)
  have "inj_on date_key (set (srt xs))"
    using assms(2) m by (metis distinct_map mset_eq_setD)
  then have "sort_key date_key (srt xs) = sort_key date_key xs"
    using m by (rule sort_key_eq_sort_key [rotated])
  then show ?thesis
    using s by (simp add: stable_sort_by_date_def sort_key_id_if_sorted)
qed

lemma get_stock_highs_eq:
  assumes "sorts_by_date srt" and "symbol \<noteq> []"
  shows "get_stock_highs srt data symbol = highs_of (srt (select_symbol data symbol))"
  using assms sorts_by_date_Nil [OF assms(1)]
  by (simp add: get_stock_highs_def highs_of_def Let_def)

lemma highs_of_date_order:
  assumes "sorted_wrt R ys"
  shows "sorted_wrt R (map fst (highs_of ys))"
proof -
  have "map fst (zip ys (cummax (map LTP ys))) = ys"
    by (simp add: cummax_def)
  then have "sorted_wrt (\<lambda>a b. R (fst a) (fst b)) (zip ys (cummax (map LTP ys)))"
    using assms by (metis sorted_wrt_map)
  then show ?thesis
    by (simp add: highs_of_def sorted_wrt_map sorted_wrt_filter)
qed

lemma highs_of_subset: "(r, h) \<in> set (highs_of ys) \<Longrightarrow> r \<in> set ys"
  by (auto simp: highs_of_def dest: set_zip_leftD)

lemma highs_of_prices:
  "\<exists>ps. map (\<lambda>z. LTP (fst z)) (highs_of ys) = map Some ps \<and> sorted ps \<and>
        set ps \<subseteq> set (List.map_filter LTP ys)"
proof (induction ys rule: rev_induct)
  case Nil
  show ?case by (simp add: highs_of_def)
next
  case (snoc y ys)
  then obtain ps where ps: "map (\<lambda>z. LTP (fst z)) (highs_of ys) = map Some ps" "sorted ps"
    "set ps \<subseteq> set (List.map_filter LTP ys)" by blast
  show ?case
  proof (cases "is_high (ys @ [y]) (length ys)")
    case False
    have "set ps \<subseteq> set (List.map_filter LTP (ys @ [y]))"
      using ps(3) by (auto simp: map_filter_snoc)
    then show ?thesis using False ps(1,2) by (auto simp: highs_of_snoc)
  next
    case True
    then obtain v where v: "LTP y = Some v"
      "v = Max (set (List.map_filter LTP (ys @ [y])))"
      by (auto simp: is_high_def running_max_def)
    have "\<forall>p\<in>set ps. p \<le> v"
    proof
      fix p assume "p \<in> set ps"
      then have "p \<in> set (List.map_filter LTP (ys @ [y]))"
        using ps(3) by (auto simp: map_filter_snoc)
      then show "p \<le> v" unfolding v(2) by (intro Max_ge) simp_all
    qed
    then have "sorted (ps @ [v])" using ps(2) by (simp add: sorted_append)
    moreover have "map (\<lambda>z. LTP (fst z)) (highs_of (ys @ [y])) = map Some (ps @ [v])"
      using True ps(1) v(1) by (simp add: highs_of_snoc)
    moreover have "set (ps @ [v]) \<subseteq> set (List.map_filter LTP (ys @ [y]))"
      using ps(3) v(1) by (auto simp: map_filter_snoc)
    ultimately show ?thesis by blast
  qed
qed

subsection \<open>Claims on the historical highs\<close>

lemma example_sorted:
  "stable_sort_by_date (select_symbol example_prices ''ACME'') =
     [price_row ''ACME'' 1 10, price_row ''ACME'' 2 12, price_row ''ACME'' 3 12,
      price_row ''ACME'' 4 9, price_row ''ACME'' 5 15]"
  by (simp add: stable_sort_by_date_def select_symbol_def example_prices_def price_row_def date_key_def)

text \<open>
  C1, as amended. For every table and every non-empty symbol, \<^verbatim>\<open>get_stock_highs\<close>
  selects the rows of that symbol, orders them by date ascending (missing dates last)
  and returns exactly the rows whose price equals the running maximum of the prices up
  to and including that row; in particular, when the ordered rows have the prices
  10, 12, 12, 9, 15, it returns the rows at positions 1, 2, 3 and 5. The sorting routine
  is any routine that meets the contract of \<^verbatim>\<open>sort_values\<close>.
\<close>

theorem get_stock_highs_running_max:
  assumes "sorts_by_date sort_values" and "symbol \<noteq> []"
  shows "(let ys = sort_values (select_symbol data symbol) in
            mset ys = mset (select_symbol data symbol) \<and>
            sorted_wrt (\<lambda>a b. asc_na_last (Date a) (Date b)) ys \<and>
            map fst (get_stock_highs sort_values data symbol) = historicalHighs_spec ys \<and>
            (map LTP ys = map Some [10, 12, 12, 9, 15] \<longrightarrow>
               map fst (get_stock_highs sort_values data symbol) = [ys ! 0, ys ! 1, ys ! 2, ys ! 4]))"
proof -
  define ys where "ys = sort_values (select_symbol data symbol)"
  have 1: "mset ys = mset (select_symbol data symbol)"
    and 2: "sorted_wrt (\<lambda>a b. asc_na_last (Date a) (Date b)) ys"
    using assms(1) by (simp_all add: ys_def sorts_by_date_def)
  have 3: "map fst (get_stock_highs sort_values data symbol) = historicalHighs_spec ys"
    using assms by (simp add: get_stock_highs_eq highs_of_spec ys_def)
  have 4: "historicalHighs_spec ys = [ys ! 0, ys ! 1, ys ! 2, ys ! 4]"
    if "map LTP ys = map Some [10, 12, 12, 9, 15]"
  proof -
    from that obtain a b c d e where ys: "ys = [a, b, c, d, e]"
      and p: "LTP a = Some 10" "LTP b = Some 12" "LTP c = Some 12" "LTP d = Some 9" "LTP e = Some 15"
      by (auto simp: map_eq_Cons_conv)
    have "[0..<length ys] = [0, 1, 2, 3, 4]"
      by (simp add: ys upt_rec)
    then show ?thesis
      by (simp add: historicalHighs_spec_def is_high_def running_max_def ys p map_filter_simps)
  qed
  show ?thesis
    unfolding Let_def ys_def [symmetric] using 1 2 3 4 by simp
qed

text \<open>The theorem at the example table, whose rows of ACME are given out of date order.\<close>

theorem get_stock_highs_running_max_witness:
  "sorts_by_date stable_sort_by_date \<and> ''ACME'' \<noteq> [] \<and>
   map LTP (stable_sort_by_date (select_symbol example_prices ''ACME'')) = map Some [10, 12, 12, 9, 15] \<and>
   map fst (get_stock_highs stable_sort_by_date example_prices ''ACME'') =
     [price_row ''ACME'' 1 10, price_row ''ACME'' 2 12, price_row ''ACME'' 3 12,
      price_row ''ACME'' 5 15]"
proof -
  let ?ys = "stable_sort_by_date (select_symbol example_prices ''ACME'')"
  have n: "''ACME'' \<noteq> []" by simp
  have p: "map LTP ?ys = map Some [10, 12, 12, 9, 15]"
    by (simp add: example_sorted price_row_def)
  have "map LTP ?ys = map Some [10, 12, 12, 9, 15] \<longrightarrow>
      map fst (get_stock_highs stable_sort_by_date example_prices ''ACME'') =
        [?ys ! 0, ?ys ! 1, ?ys ! 2, ?ys ! 4]"
    using get_stock_highs_running_max [OF stable_sort_by_date_ok n, of example_prices]
    unfolding Let_def by blast
  with p have "map fst (get_stock_highs stable_sort_by_date example_prices ''ACME'') =
      [?ys ! 0, ?ys ! 1, ?ys ! 2, ?ys ! 4]" by blast
  then have "map fst (get_stock_highs stable_sort_by_date example_prices ''ACME'') =
     [price_row ''ACME'' 1 10, price_row ''ACME'' 2 12, price_row ''ACME'' 3 12,
      price_row ''ACME'' 5 15]"
    by (simp add: example_sorted)
  with p n stable_sort_by_date_ok show ?thesis by blast
qed

text \<open>
  The claim as the specification states it, for every symbol, fails at the empty symbol:
  on a table whose only row has the empty string as its symbol, the rows at a running
  maximum are that row, and \<^verbatim>\<open>get_stock_highs\<close> returns nothing, because of the
  guard \<^verbatim>\<open>if symbol:\<close>.
\<close>

theorem get_stock_highs_empty_symbol_counterexample:
  "get_stock_highs stable_sort_by_date [price_row [] 1 10] [] = [] \<and>
   historicalHighs_spec (stable_sort_by_date (select_symbol [price_row [] 1 10] [])) =
     [price_row [] 1 10]"
  by (simp add: get_stock_highs_def historicalHighs_spec_def stable_sort_by_date_def
      select_symbol_def is_high_def running_max_def price_row_def map_filter_simps)

text \<open>
  C6. For every table and symbol, the rows that \<^verbatim>\<open>get_stock_highs\<close> returns are in
  date order, each has a price, and the prices are non-decreasing from each returned
  row to the next.
\<close>

theorem get_stock_highs_nondecreasing:
  assumes "sorts_by_date sort_values"
  shows "sorted_wrt (\<lambda>a b. asc_na_last (Date a) (Date b))
           (map fst (get_stock_highs sort_values data symbol)) \<and>
         (\<exists>ps. map (\<lambda>z. LTP (fst z)) (get_stock_highs sort_values data symbol) = map Some ps \<and>
               sorted ps)"
proof (cases "symbol = []")
  case True
  then show ?thesis by (simp add: get_stock_highs_def)
next
  case False
  let ?ys = "sort_values (select_symbol data symbol)"
  have "sorted_wrt (\<lambda>a b. asc_na_last (Date a) (Date b)) ?ys"
    using assms by (simp add: sorts_by_date_def)
  then have "sorted_wrt (\<lambda>a b. asc_na_last (Date a) (Date b)) (map fst (highs_of ?ys))"
    by (rule highs_of_date_order)
  moreover obtain ps where "map (\<lambda>z. LTP (fst z)) (highs_of ?ys) = map Some ps" "sorted ps"
    using highs_of_prices [of ?ys] by blast
  ultimately show ?thesis
    using assms False by (auto simp: get_stock_highs_eq)
qed

theorem get_stock_highs_nondecreasing_witness:
  "sorts_by_date stable_sort_by_date \<and>
   map (\<lambda>z. LTP (fst z)) (get_stock_highs stable_sort_by_date example_prices ''ACME'') =
     map Some [10, 12, 12, 15] \<and> sorted [10, 12, 12, 15 :: rat]"
proof -
  have e: "get_stock_highs stable_sort_by_date example_prices ''ACME'' =
      [(price_row ''ACME'' 1 10, Some 10), (price_row ''ACME'' 2 12, Some 12),
       (price_row ''ACME'' 3 12, Some 12), (price_row ''ACME'' 5 15, Some 15)]"
    by (simp add: get_stock_highs_eq stable_sort_by_date_ok example_sorted highs_of_def
        cummax_def eq_na_def price_row_def)
  obtain ps where "map (\<lambda>z. LTP (fst z)) (get_stock_highs stable_sort_by_date example_prices ''ACME'') = map Some ps"
    and "sorted ps"
    using get_stock_highs_nondecreasing [OF stable_sort_by_date_ok, of example_prices "''ACME''"]
    by blast
  then show ?thesis
    using stable_sort_by_date_ok by (auto simp: e price_row_def)
qed

text \<open>
  C10. Called with the empty string as the symbol, \<^verbatim>\<open>get_stock_highs\<close> returns the
  empty frame whatever the table holds and whatever the sorting routine does, also when
  rows of the table have the empty string as their symbol.
\<close>

theorem get_stock_highs_empty_symbol:
  "get_stock_highs sort_values data [] = []"
  by (simp add: get_stock_highs_def)

subsection \<open>Counting, grouping and the sort routines on the count\<close>

lemma foldl_count_one:
  "foldl count_one d col s =
     (if s \<in> set col
      then Some (count_list col s + (case d s of None \<Rightarrow> 0 | Some n \<Rightarrow> n))
      else d s)"
  by (induction col arbitrary: d) (auto simp: count_one_def split: option.splits)

lemma value_counts_eq:
  "value_counts col s = (if s \<in> set col then Some (count_list col s) else None)"
  by (simp add: value_counts_def foldl_count_one)

lemma count_list_Symbol: "count_list (map Symbol df) s = length (select_symbol df s)"
  by (induction df) (auto simp: select_symbol_def)

lemma length_select_symbol_mset:
  "mset df' = mset df \<Longrightarrow> length (select_symbol df' s) = length (select_symbol df s)"
proof -
  assume "mset df' = mset df"
  then have "mset (select_symbol df' s) = mset (select_symbol df s)"
    by (simp add: select_symbol_def)
  then have "size (mset (select_symbol df' s)) = size (mset (select_symbol df s))"
    by (rule arg_cong)
  then show ?thesis by simp
qed

lemma Symbol_group_first [simp]: "Symbol (group_first s g) = s"
  by (simp add: group_first_def)

lemma symbols_groupby:
  "map Symbol (groupby_symbol_first df) = sort (remdups (map Symbol df))"
  by (simp add: groupby_symbol_first_def comp_def)

lemma sorted_symbols_mset:
  assumes "mset df' = mset df"
  shows "sort (remdups (map Symbol df')) = sort (remdups (map Symbol df))"
proof -
  have "set df' = set df"
    using assms by (rule mset_eq_setD)
  then have "set (map Symbol df') = set (map Symbol df)"
    by simp
  then show ?thesis
    by (intro sorted_distinct_set_unique) simp_all
qed

lemma symbols_latest:
  "map Symbol (groupby_symbol_first (sort_latest_first df)) = sort (remdups (map Symbol df))"
  unfolding symbols_groupby sort_latest_first_def
  by (rule sorted_symbols_mset) simp

lemma desc_na_last_count_key:
  "desc_na_last (snd a) (snd b) \<longleftrightarrow> count_desc_key a \<le> count_desc_key b"
  by (auto simp: desc_na_last_def count_desc_key_def desc_key_def split: option.splits)

lemma sorted_by_count_iff:
  "sorted_wrt (\<lambda>a b. desc_na_last (snd a) (snd b)) xs \<longleftrightarrow> sorted (map count_desc_key xs)"
  by (simp add: sorted_map desc_na_last_count_key)

lemma stable_sort_by_count_ok: "sorts_by_count_desc stable_sort_by_count"
  by (simp add: sorts_by_count_desc_def stable_sort_by_count_def sorted_by_count_iff)

lemma desc_na_last_asc_key:
  "desc_na_last (snd a) (snd b) \<longleftrightarrow> count_asc_key b \<le> count_asc_key a"
  by (auto simp: desc_na_last_def count_asc_key_def split: option.splits)

lemma reversing_sort_by_count_ok: "sorts_by_count_desc reversing_sort_by_count"
proof -
  have "sorted_wrt (\<lambda>a b. desc_na_last (snd a) (snd b)) (rev (sort_key count_asc_key xs))" for xs
  proof -
    have "sorted (map count_asc_key (sort_key count_asc_key xs))" by simp
    then have "sorted_wrt (\<lambda>a b. count_asc_key a \<le> count_asc_key b) (sort_key count_asc_key xs)"
      by (simp add: sorted_map)
    then show ?thesis
      by (simp add: sorted_wrt_rev desc_na_last_asc_key)
  qed
  then show ?thesis
    by (simp add: sorts_by_count_desc_def reversing_sort_by_count_def)
qed

lemma sorts_by_count_desc_Nil: "sorts_by_count_desc srt \<Longrightarrow> srt [] = []"
  by (metis mset_zero_iff sorts_by_count_desc_def)

lemma get_latest_stock_data_eq:
  "get_latest_stock_data srt df = srt (counted_latest df)"
  by (simp add: get_latest_stock_data_def counted_latest_def Let_def)

lemma symbol_count_counted_latest:
  "map symbol_count (counted_latest df) =
     map (\<lambda>s. (s, Some (length (select_symbol df s)))) (sort (remdups (map Symbol df)))"
proof -
  have "map symbol_count (counted_latest df) =
      map (\<lambda>s. (s, value_counts (map Symbol df) s)) (map Symbol (groupby_symbol_first (sort_latest_first df)))"
    by (simp add: counted_latest_def symbol_count_def comp_def)
  also have "\<dots> = map (\<lambda>s. (s, value_counts (map Symbol df) s)) (sort (remdups (map Symbol df)))"
    by (simp only: symbols_latest)
  also have "\<dots> = map (\<lambda>s. (s, Some (length (select_symbol df s)))) (sort (remdups (map Symbol df)))"
    by (rule map_cong) (auto simp: value_counts_eq count_list_Symbol)
  finally show ?thesis .
qed

lemma symbol_count_latest_mset:
  assumes "sorts_by_count_desc srt"
  shows "mset (map symbol_count (get_latest_stock_data srt df)) =
     mset (map (\<lambda>s. (s, Some (length (select_symbol df s)))) (sort (remdups (map Symbol df))))"
proof -
  have "mset (get_latest_stock_data srt df) = mset (counted_latest df)"
    using assms by (simp add: get_latest_stock_data_eq sorts_by_count_desc_def)
  then have "mset (map symbol_count (get_latest_stock_data srt df)) = mset (map symbol_count (counted_latest df))"
    by simp
  then show ?thesis by (simp only: symbol_count_counted_latest)
qed

lemma latest_count:
  assumes "sorts_by_count_desc srt" and "x \<in> set (get_latest_stock_data srt df)"
  shows "snd x = Some (length (select_symbol df (Symbol (fst x))))"
proof -
  have "symbol_count x \<in> set (map symbol_count (get_latest_stock_data srt df))"
    using assms(2) by simp
  then have "symbol_count x \<in> set (map (\<lambda>s. (s, Some (length (select_symbol df s)))) (sort (remdups (map Symbol df))))"
    using mset_eq_setD [OF symbol_count_latest_mset [OF assms(1), of df]] by simp
  then show ?thesis by (auto simp: symbol_count_def)
qed

lemma latest_late_leader:
  "counted_latest late_leader = [(price_row ''A'' 1 10, Some 1), (price_row ''B'' 3 22, Some 3)]"
  by (simp add: counted_latest_def late_leader_def price_row_def groupby_symbol_first_def
      sort_latest_first_def latest_first_key_def desc_key_def select_symbol_def group_first_def
      value_counts_def count_one_def)

lemma latest_tied_symbols:
  "counted_latest tied_symbols =
     [(price_row ''S00'' 1 10, Some 1), (price_row ''S01'' 1 20, Some 1),
      (price_row ''S02'' 2 31, Some 2), (price_row ''S03'' 2 41, Some 2)]"
  by (simp add: counted_latest_def tied_symbols_def price_row_def groupby_symbol_first_def
      sort_latest_first_def latest_first_key_def desc_key_def select_symbol_def group_first_def
      value_counts_def count_one_def)

lemma latest_example_prices:
  "counted_latest example_prices = [(price_row ''ACME'' 5 15, Some 5), (price_row ''OTHER'' 1 99, Some 1)]"
  by (simp add: counted_latest_def example_prices_def price_row_def groupby_symbol_first_def
      sort_latest_first_def latest_first_key_def desc_key_def select_symbol_def group_first_def
      value_counts_def count_one_def)

lemma latest_stale_example:
  "counted_latest stale_example = [(mixed_row, Some 2)]"
  by (simp add: counted_latest_def stale_example_def mixed_row_def price_row_def groupby_symbol_first_def
      sort_latest_first_def latest_first_key_def desc_key_def select_symbol_def group_first_def
      value_counts_def count_one_def)

subsection \<open>Claims on the latest snapshot\<close>

text \<open>
  C5. In the result of \<^verbatim>\<open>get_latest_stock_data\<close> every row carries as its count the
  number of rows of its symbol in the input table, every symbol of the input occurs in
  exactly one row of the result, and the pairs of symbol and count are the same for any
  rearrangement of the input rows (and any sort routine that meets the contract).
\<close>

theorem get_latest_stock_data_count:
  assumes "sorts_by_count_desc sort_values" and "sorts_by_count_desc sort_values'"
    and "mset data' = mset data"
  shows "(\<forall>x \<in> set (get_latest_stock_data sort_values data).
            snd x = Some (length (select_symbol data (Symbol (fst x))))) \<and>
         mset (map (Symbol \<circ> fst) (get_latest_stock_data sort_values data)) =
           mset (remdups (map Symbol data)) \<and>
         mset (map symbol_count (get_latest_stock_data sort_values' data')) =
           mset (map symbol_count (get_latest_stock_data sort_values data))"
proof -
  have 1: "\<forall>x \<in> set (get_latest_stock_data sort_values data).
      snd x = Some (length (select_symbol data (Symbol (fst x))))"
    using latest_count [OF assms(1)] by blast
  have "image_mset fst (mset (map symbol_count (get_latest_stock_data sort_values data))) =
      image_mset fst (mset (map (\<lambda>s. (s, Some (length (select_symbol data s))))
        (sort (remdups (map Symbol data)))))"
    by (simp only: symbol_count_latest_mset [OF assms(1)])
  then have 2: "mset (map (Symbol \<circ> fst) (get_latest_stock_data sort_values data)) =
      mset (remdups (map Symbol data))"
    by (simp add: multiset.map_comp comp_def symbol_count_def)
  have "map (\<lambda>s. (s, Some (length (select_symbol data' s)))) (sort (remdups (map Symbol data'))) =
      map (\<lambda>s. (s, Some (length (select_symbol data s)))) (sort (remdups (map Symbol data)))"
    by (simp only: sorted_symbols_mset [OF assms(3)] length_select_symbol_mset [OF assms(3)])
  then have 3: "mset (map symbol_count (get_latest_stock_data sort_values' data')) =
      mset (map symbol_count (get_latest_stock_data sort_values data))"
    by (simp only: symbol_count_latest_mset [OF assms(1)] symbol_count_latest_mset [OF assms(2)])
  from 1 2 3 show ?thesis by blast
qed

theorem get_latest_stock_data_count_witness:
  "sorts_by_count_desc stable_sort_by_count \<and> sorts_by_count_desc reversing_sort_by_count \<and>
   mset (rev example_prices) = mset example_prices \<and>
   length (select_symbol example_prices ''ACME'') = 5 \<and>
   length (select_symbol example_prices ''OTHER'') = 1 \<and>
   get_latest_stock_data stable_sort_by_count example_prices =
     [(price_row ''ACME'' 5 15, Some 5), (price_row ''OTHER'' 1 99, Some 1)] \<and>
   mset (map symbol_count (get_latest_stock_data reversing_sort_by_count (rev example_prices))) =
     mset [(''ACME'', Some 5), (''OTHER'', Some 1)]"
proof -
  have m: "mset (rev example_prices) = mset example_prices" by simp
  have e: "get_latest_stock_data stable_sort_by_count example_prices =
      [(price_row ''ACME'' 5 15, Some 5), (price_row ''OTHER'' 1 99, Some 1)]"
    by (simp add: get_latest_stock_data_eq latest_example_prices stable_sort_by_count_def
        count_desc_key_def desc_key_def)
  note t = get_latest_stock_data_count [OF stable_sort_by_count_ok reversing_sort_by_count_ok m]
  have "length (select_symbol example_prices ''ACME'') = 5"
    and "length (select_symbol example_prices ''OTHER'') = 1"
    by (simp_all add: select_symbol_def example_prices_def price_row_def)
  moreover from t have "mset (map symbol_count (get_latest_stock_data reversing_sort_by_count (rev example_prices))) =
      mset (map symbol_count (get_latest_stock_data stable_sort_by_count example_prices))" by blast
  then have "mset (map symbol_count (get_latest_stock_data reversing_sort_by_count (rev example_prices))) =
      mset [(''ACME'', Some 5), (''OTHER'', Some 1)]"
    by (simp add: e symbol_count_def price_row_def)
  ultimately show ?thesis
    using stable_sort_by_count_ok reversing_sort_by_count_ok m e by blast
qed

text \<open>
  C7, as amended. The result of \<^verbatim>\<open>get_latest_stock_data\<close> is ordered by count
  descending: each row's symbol has at least as many rows in the input as the symbol of
  any row after it. Nothing is promised on the order of rows with equal counts.
\<close>

theorem get_latest_stock_data_count_descending:
  assumes "sorts_by_count_desc sort_values"
  shows "sorted_wrt (\<lambda>a b. length (select_symbol data (Symbol (fst b)))
                         \<le> length (select_symbol data (Symbol (fst a))))
           (get_latest_stock_data sort_values data)"
proof -
  have 1: "sorted_wrt (\<lambda>a b. desc_na_last (snd a) (snd b)) (get_latest_stock_data sort_values data)"
    using assms by (simp add: get_latest_stock_data_eq sorts_by_count_desc_def)
  show ?thesis
  proof (rule sorted_wrt_mono_rel [OF _ 1])
    fix a b
    assume "a \<in> set (get_latest_stock_data sort_values data)"
      and "b \<in> set (get_latest_stock_data sort_values data)"
      and "desc_na_last (snd a) (snd b)"
    then show "length (select_symbol data (Symbol (fst b))) \<le> length (select_symbol data (Symbol (fst a)))"
      using latest_count [OF assms, of a data] latest_count [OF assms, of b data]
      by (simp add: desc_na_last_def)
  qed
qed

text \<open>
  The theorem at a table that the last sort has to rearrange: A has one row and B has
  three, so that the rows are in the order A, B before the sort and B, A after it.
\<close>

theorem get_latest_stock_data_count_descending_witness:
  "sorts_by_count_desc reversing_sort_by_count \<and>
   counted_latest late_leader =
     [(price_row ''A'' 1 10, Some 1), (price_row ''B'' 3 22, Some 3)] \<and>
   get_latest_stock_data reversing_sort_by_count late_leader =
     [(price_row ''B'' 3 22, Some 3), (price_row ''A'' 1 10, Some 1)] \<and>
   length (select_symbol late_leader ''A'') = 1 \<and>
   length (select_symbol late_leader ''B'') = 3 \<and>
   sorted_wrt (\<lambda>a b. length (select_symbol late_leader (Symbol (fst b)))
                   \<le> length (select_symbol late_leader (Symbol (fst a))))
     (get_latest_stock_data reversing_sort_by_count late_leader)"
proof -
  have e: "get_latest_stock_data reversing_sort_by_count late_leader =
     [(price_row ''B'' 3 22, Some 3), (price_row ''A'' 1 10, Some 1)]"
    by (simp add: get_latest_stock_data_eq latest_late_leader reversing_sort_by_count_def
        count_asc_key_def)
  have "length (select_symbol late_leader ''A'') = 1"
    and "length (select_symbol late_leader ''B'') = 3"
    by (simp_all add: select_symbol_def late_leader_def price_row_def)
  then show ?thesis
    using get_latest_stock_data_count_descending [OF reversing_sort_by_count_ok, of late_leader]
      reversing_sort_by_count_ok latest_late_leader e by blast
qed

text \<open>
  The claim as the specification states it adds that rows with equal counts keep their
  relative order. The code sorts with \<^verbatim>\<open>sort_values('count', ascending=False)\<close>, that
  is with the default \<^verbatim>\<open>kind='quicksort'\<close>, which pandas documents as not stable
  (only \<^verbatim>\<open>mergesort\<close> and \<^verbatim>\<open>stable\<close> are); the order of rows with equal counts
  is whatever the quicksort of the installed numpy leaves. The table below has two
  symbols of one row and two symbols of two rows. Before the last sort its rows are in
  the order S00, S01, S02, S03. A stable sort gives S02, S03, S00, S01. The routine that
  sorts ascending and reverses, which is within the contract, gives S03, S02, S01, S00:
  the counts are descending and both pairs of equal counts are turned around.
\<close>

theorem get_latest_stock_data_ties_counterexample:
  "sorts_by_count_desc reversing_sort_by_count \<and>
   counted_latest tied_symbols =
     [(price_row ''S00'' 1 10, Some 1), (price_row ''S01'' 1 20, Some 1),
      (price_row ''S02'' 2 31, Some 2), (price_row ''S03'' 2 41, Some 2)] \<and>
   get_latest_stock_data stable_sort_by_count tied_symbols =
     [(price_row ''S02'' 2 31, Some 2), (price_row ''S03'' 2 41, Some 2),
      (price_row ''S00'' 1 10, Some 1), (price_row ''S01'' 1 20, Some 1)] \<and>
   get_latest_stock_data reversing_sort_by_count tied_symbols =
     [(price_row ''S03'' 2 41, Some 2), (price_row ''S02'' 2 31, Some 2),
      (price_row ''S01'' 1 20, Some 1), (price_row ''S00'' 1 10, Some 1)]"
  using reversing_sort_by_count_ok
  by (simp add: get_latest_stock_data_eq latest_tied_symbols reversing_sort_by_count_def
      stable_sort_by_count_def count_desc_key_def desc_key_def count_asc_key_def)

text \<open>
  C9, as amended. On a frame that has the columns \<^verbatim>\<open>Symbol\<close>, \<^verbatim>\<open>Today's Date\<close> and
  \<^verbatim>\<open>%chng\<close> and no rows, \<^verbatim>\<open>get_latest_stock_data\<close> raises nothing and returns a
  result without rows.
\<close>

theorem get_latest_stock_data_empty:
  assumes "sorts_by_count_desc sort_values"
    and "''Symbol'' \<in> set (columns df)" and "''Today's Date'' \<in> set (columns df)"
    and "''%chng'' \<in> set (columns df)" and "rows df = []"
  shows "get_latest_stock_data_frame sort_values df = Inr []"
  using sorts_by_count_desc_Nil [OF assms(1)] assms(2-5)
  by (simp add: get_latest_stock_data_frame_def get_latest_stock_data_def
      groupby_symbol_first_def sort_latest_first_def)

theorem get_latest_stock_data_empty_witness:
  "sorts_by_count_desc stable_sort_by_count \<and>
   ''Symbol'' \<in> set (columns empty_table) \<and> ''Today's Date'' \<in> set (columns empty_table) \<and>
   ''%chng'' \<in> set (columns empty_table) \<and> rows empty_table = [] \<and>
   frame_empty empty_table \<and>
   get_latest_stock_data_frame stable_sort_by_count empty_table = Inr []"
proof -
  have c: "''Symbol'' \<in> set (columns empty_table)" "''Today's Date'' \<in> set (columns empty_table)"
    "''%chng'' \<in> set (columns empty_table)" "rows empty_table = []"
    by (simp_all add: empty_table_def spec_required_columns_def)
  have "frame_empty empty_table" by (simp add: frame_empty_def empty_table_def)
  then show ?thesis
    using get_latest_stock_data_empty [OF stable_sort_by_count_ok c] stable_sort_by_count_ok c
    by blast
qed

text \<open>
  The claim as the specification states it speaks of any empty table. The empty table
  that the program itself builds is \<^verbatim>\<open>pd.DataFrame()\<close>, which \<^verbatim>\<open>load_data\<close> returns
  for a file that cannot be read; it is empty and has no column, and on it the first
  line of \<^verbatim>\<open>get_latest_stock_data\<close> raises \<^verbatim>\<open>KeyError: 'Symbol'\<close>.
\<close>

theorem get_latest_stock_data_no_columns_counterexample:
  "frame_empty pd_DataFrame \<and>
   map fst (snd (load_data example_pandas ''missing.csv'')) = columns pd_DataFrame \<and>
   get_latest_stock_data_frame stable_sort_by_count pd_DataFrame = Inl (KeyError ''Symbol'')"
  by (simp add: frame_empty_def pd_DataFrame_def get_latest_stock_data_frame_def
      load_data_def example_pandas_def failed_def)

text \<open>
  C2. The specification has \<^verbatim>\<open>latestPerSymbol\<close> select, for each symbol, the row with
  the maximum date (ties broken by the maximum percent change, missing values last).
  The code orders the rows that way but then takes \<^verbatim>\<open>.groupby('Symbol').first()\<close>,
  which picks the first entry that is not missing column by column. Where the newest
  row lacks a value that an older row has, the result is no row of the table: below,
  the newest row of ACME has no market capitalisation, and the result pairs its date,
  price and change with the market capitalisation of the day before.
\<close>

theorem get_latest_stock_data_mixes_rows:
  "get_latest_stock_data stable_sort_by_count stale_example = [(mixed_row, Some 2)] \<and>
   mixed_row \<notin> set stale_example"
proof
  show "get_latest_stock_data stable_sort_by_count stale_example = [(mixed_row, Some 2)]"
    by (simp add: get_latest_stock_data_eq latest_stale_example stable_sort_by_count_def)
  show "mixed_row \<notin> set stale_example"
    by (simp add: stale_example_def mixed_row_def price_row_def)
qed

text \<open>
  Where no value is missing, \<^verbatim>\<open>first()\<close> does return a row of the table, and the row
  is the one the specification describes: a row of the symbol that no other row of the
  symbol precedes in the order by date descending and then by percent change descending.
\<close>

lemma first_valid_hd: "g \<noteq> [] \<Longrightarrow> f (hd g) \<noteq> None \<Longrightarrow> first_valid (map f g) = f (hd g)"
  by (cases g) auto

lemma group_first_complete:
  assumes "g \<noteq> []" and "complete (hd g)" and "Symbol (hd g) = s"
  shows "group_first s g = hd g"
  using assms by (simp add: group_first_def complete_def first_valid_hd)

lemma select_sorted:
  "select_symbol (sort_latest_first df) s = sort_latest_first (select_symbol df s)"
  by (simp add: select_symbol_def sort_latest_first_def filter_sort)

lemma hd_sorted_least:
  assumes "xs \<noteq> []"
  shows "hd (sort_key k xs) \<in> set xs \<and> (\<forall>r \<in> set xs. k (hd (sort_key k xs)) \<le> k r)"
proof -
  let ?ys = "sort_key k xs"
  have ne: "?ys \<noteq> []" using assms by (metis length_sort length_0_conv)
  then obtain y ys where ys: "?ys = y # ys" by (cases ?ys) auto
  have "sorted (map k ?ys)" by simp
  then have "\<forall>r \<in> set ?ys. k y \<le> k r" by (auto simp: ys)
  moreover have "y \<in> set ?ys" by (simp add: ys)
  ultimately show ?thesis by (simp add: ys [symmetric] del: sorted_sort_key) (simp add: ys)
qed

lemma latest_first_key_le:
  "latest_first_key a \<le> latest_first_key b \<longleftrightarrow>
     (desc_na_last (Date a) (Date b) \<and> Date a \<noteq> Date b) \<or>
     (Date a = Date b \<and> desc_na_last (chng a) (chng b))"
  by (auto simp: latest_first_key_def desc_key_def desc_na_last_def split: option.splits)

lemma set_sort_latest_first [simp]: "set (sort_latest_first df) = set df"
  by (simp add: sort_latest_first_def)

lemma latest_rows_complete:
  assumes "sorts_by_count_desc srt" and "\<forall>r \<in> set df. complete r"
    and "x \<in> set (get_latest_stock_data srt df)"
  shows "fst x \<in> set df \<and>
         (\<forall>r \<in> set (select_symbol df (Symbol (fst x))).
            latest_first_key (fst x) \<le> latest_first_key r)"
proof -
  have "set (get_latest_stock_data srt df) = set (counted_latest df)"
    using assms(1) by (metis get_latest_stock_data_eq sorts_by_count_desc_def set_mset_mset)
  with assms(3) have "x \<in> set (counted_latest df)" by simp
  then obtain s where s: "s \<in> set (map Symbol df)"
    and "x = (group_first s (select_symbol (sort_latest_first df) s),
              value_counts (map Symbol df) s)"
    unfolding counted_latest_def groupby_symbol_first_def by auto
  then have x: "fst x = group_first s (select_symbol (sort_latest_first df) s)"
    by simp
  let ?g = "select_symbol df s"
  have gne: "?g \<noteq> []" using s by (auto simp: select_symbol_def filter_empty_conv)
  let ?h = "hd (sort_latest_first ?g)"
  have h: "?h \<in> set ?g" "\<forall>r \<in> set ?g. latest_first_key ?h \<le> latest_first_key r"
    using hd_sorted_least [OF gne, of latest_first_key] by (simp_all add: sort_latest_first_def)
  then have hs: "Symbol ?h = s" and hdf: "?h \<in> set df" by (auto simp: select_symbol_def)
  have "set (sort_latest_first ?g) \<noteq> {}" using gne by simp
  then have "sort_latest_first ?g \<noteq> []" by (simp only: set_empty not_False_eq_True)
  then have "fst x = ?h"
    using group_first_complete [of "sort_latest_first ?g" s] hs hdf assms(2)
    by (simp add: x select_sorted)
  with h hs hdf show ?thesis by simp
qed

subsection \<open>Frames and the steps of the loader\<close>

lemma get_set_column:
  "get_column (set_column n c df) m = (if m = n then Some c else get_column df m)"
  by (simp add: get_column_def set_column_def update_conv')

lemma get_clean_numeric_column:
  "get_column (clean_numeric_column pd df col) m =
     (if m = col then map_option (map (clean_ratio pd)) (get_column df m) else get_column df m)"
  by (auto simp: clean_numeric_column_def get_set_column split: option.splits)

lemma get_foldl_clean:
  "distinct cols \<Longrightarrow>
   get_column (foldl (clean_numeric_column pd) df cols) m =
     (if m \<in> set cols then map_option (map (clean_ratio pd)) (get_column df m)
      else get_column df m)"
proof (induction cols arbitrary: df)
  case Nil
  show ?case by simp
next
  case (Cons c cols)
  then show ?case by (auto simp: get_clean_numeric_column)
qed

lemma distinct_numeric_columns: "distinct numeric_columns"
  by (simp add: numeric_columns_def)

lemmas get_numeric = get_foldl_clean [OF distinct_numeric_columns]

lemma required_not_numeric:
  "''Today's Date'' \<notin> set numeric_columns" "''%chng'' \<notin> set numeric_columns"
  "''Market Cap'' \<notin> set numeric_columns" "''Symbol'' \<notin> set numeric_columns"
  by (simp_all add: numeric_columns_def)

lemma load_data_cases:
  "load_data pd file =
     (case read_csv pd file of
        None \<Rightarrow> failed ReadError
      | Some df \<Rightarrow>
          (case get_column df ''Today's Date'' of
             None \<Rightarrow> failed (KeyError ''Today's Date'')
           | Some dates \<Rightarrow>
               (case to_datetime pd dates of
                  None \<Rightarrow> failed DateError
                | Some stamps \<Rightarrow>
                    if get_column df ''%chng'' = None then failed (KeyError ''%chng'')
                    else if get_column df ''Market Cap'' = None then failed (KeyError ''Market Cap'')
                    else if get_column df ''Symbol'' = None then failed (KeyError ''Symbol'')
                    else (None, snd (load_data pd file)))))"
  by (auto simp: load_data_def Let_def get_set_column get_numeric required_not_numeric
      split: option.splits)

lemma load_data_success:
  assumes "read_csv pd file = Some df"
    and "get_column df ''Today's Date'' = Some dates"
    and "to_datetime pd dates = Some stamps"
    and "get_column df ''%chng'' = Some pct"
    and "get_column df ''Market Cap'' = Some cap"
    and "get_column df ''Symbol'' = Some symbols"
  shows "load_data pd file =
     (None,
      set_column ''Symbol'' (map (clean_symbol pd) symbols)
        (set_column ''Market Cap'' (map (clean_market_cap pd) cap)
          (foldl (clean_numeric_column pd)
            (set_column ''%chng'' (map (clean_chng pd) pct)
              (set_column ''Today's Date'' stamps df))
            numeric_columns)))"
  using assms
  by (simp add: load_data_def Let_def get_set_column get_numeric required_not_numeric)

lemma load_data_fails_iff:
  "(fst (load_data pd file) \<noteq> None) =
     (read_csv pd file = None \<or>
      (\<exists>df. read_csv pd file = Some df \<and>
         ((\<exists>c \<in> set required_columns. get_column df c = None) \<or>
          (\<exists>dates. get_column df ''Today's Date'' = Some dates \<and> to_datetime pd dates = None))))"
  by (subst load_data_cases)
     (auto simp: failed_def required_columns_def split: option.splits)

lemma load_data_failure_empty:
  "fst (load_data pd file) = None \<or> snd (load_data pd file) = []"
  by (subst (1 2) load_data_cases) (auto simp: failed_def split: option.splits)

lemma load_data_columns:
  assumes "read_csv pd file = Some df" and "fst (load_data pd file) = None"
  shows "get_column (snd (load_data pd file)) ''%chng'' =
           map_option (map (clean_chng pd)) (get_column df ''%chng'')"
    and "get_column (snd (load_data pd file)) ''Market Cap'' =
           map_option (map (clean_market_cap pd)) (get_column df ''Market Cap'')"
    and "col \<in> set numeric_columns \<Longrightarrow>
         get_column (snd (load_data pd file)) col =
           map_option (map (clean_ratio pd)) (get_column df col)"
proof -
  from assms(2) have ok: "\<not> (fst (load_data pd file) \<noteq> None)" by simp
  from ok [unfolded load_data_fails_iff] assms(1)
  obtain dates stamps pct cap symbols where
    c: "get_column df ''Today's Date'' = Some dates" "to_datetime pd dates = Some stamps"
      "get_column df ''%chng'' = Some pct" "get_column df ''Market Cap'' = Some cap"
      "get_column df ''Symbol'' = Some symbols"
    by (auto simp: required_columns_def)
  note s = load_data_success [OF assms(1) c]
  show "get_column (snd (load_data pd file)) ''%chng'' =
           map_option (map (clean_chng pd)) (get_column df ''%chng'')"
    by (simp add: s c get_set_column get_numeric required_not_numeric)
  show "get_column (snd (load_data pd file)) ''Market Cap'' =
           map_option (map (clean_market_cap pd)) (get_column df ''Market Cap'')"
    by (simp add: s c get_set_column get_numeric required_not_numeric)
  show "get_column (snd (load_data pd file)) col =
           map_option (map (clean_ratio pd)) (get_column df col)"
    if "col \<in> set numeric_columns"
  proof -
    from that have "col \<noteq> ''Symbol''" "col \<noteq> ''Market Cap''" "col \<noteq> ''%chng''"
      "col \<noteq> ''Today's Date''"
      using required_not_numeric by auto
    with that show ?thesis
      by (simp add: s get_set_column get_numeric)
  qed
qed

lemma numeric_cell_missing:
  "to_numeric pd s = None \<Longrightarrow> numeric_cell pd s = NaN"
  "(numeric_cell pd s = Number 0) = (to_numeric pd s = Some 0)"
  by (auto simp: numeric_cell_def split: option.splits)

lemma example_load:
  "load_data example_pandas ''financial_metrics.csv'' =
     (None,
      [(''Today's Date'', [Timestamp 20240115, Timestamp 20240116]),
       (''Symbol'', [Text ''ACME'', Text ''ACME'']),
       (''%chng'', [Number (3 / 2), NaN]),
       (''Market Cap'', [Number (2469 / 2), NaN])])"
  by (simp add: load_data_def example_pandas_def example_csv_def get_column_def set_column_def
      parse_dates_def iso_date_def is_digit_def digits_value_def digit_value_def
      numeric_columns_def clean_numeric_column_def clean_chng_def clean_market_cap_def
      clean_symbol_def numeric_cell_def astype_str_def strip_def is_space_def plain_decimal_def
      is_decimal_def decimal_value_def first_number_def upper_char_def rupee_def source_glyph_def
      failed_def replace.simps)

subsection \<open>The leading number of a string\<close>

text \<open>
  What the search of \<^verbatim>\<open>first_number\<close> returns is the leading numeric substring in the
  sense of the specification, and it returns nothing exactly when the text has no digit.
\<close>

lemma is_decimal_digits:
  assumes "list_all is_digit w" and "w \<noteq> []"
  shows "is_decimal w"
proof -
  have 1: "takeWhile is_digit w = w" and 2: "dropWhile is_digit w = []"
    using assms(1) by (simp_all add: list_all_iff)
  show ?thesis
    unfolding is_decimal_def Let_def 1 2 using assms(2) by simp
qed

lemma not_digit_point: "\<not> is_digit CHR ''.''"
  by (simp add: is_digit_def)

lemma is_decimal_point:
  assumes "list_all is_digit w" and "w \<noteq> []" and "list_all is_digit f" and "f \<noteq> []"
  shows "is_decimal (w @ ''.'' @ f)"
proof -
  have 1: "takeWhile is_digit (w @ ''.'' @ f) = w"
    and 2: "dropWhile is_digit (w @ ''.'' @ f) = ''.'' @ f"
    using assms(1) not_digit_point
    by (simp_all add: list_all_iff)
  show ?thesis
    unfolding is_decimal_def Let_def 1 2 using assms(2-4) by simp
qed

lemma first_number_None:
  "(first_number s = None) = list_all (\<lambda>c. \<not> is_digit c) s"
  by (simp add: first_number_def Let_def list_all_iff)

lemma not_starts_dropWhile: "\<not> starts_with_digit (dropWhile is_digit xs)"
  by (induction xs) (simp_all add: starts_with_digit_def)

lemma leading_numberI:
  assumes "is_decimal m" and "s = pre @ m @ post" and "list_all (\<lambda>c. \<not> is_digit c) pre"
    and "\<not> starts_with_digit post"
    and "CHR ''.'' \<in> set m \<or> \<not> (\<exists>post'. post = CHR ''.'' # post' \<and> starts_with_digit post')"
  shows "leading_number s m"
  unfolding leading_number_def using assms by blast

lemma takeWhile_Nil_starts: "takeWhile is_digit xs = [] \<Longrightarrow> \<not> starts_with_digit xs"
  by (cases xs) (auto simp: starts_with_digit_def split: if_splits)

lemma first_number_Some:
  assumes "first_number s = Some m"
  shows "leading_number s m"
proof -
  define pre where "pre = takeWhile (\<lambda>c. \<not> is_digit c) s"
  define t where "t = dropWhile (\<lambda>c. \<not> is_digit c) s"
  define whole where "whole = takeWhile is_digit t"
  define r where "r = dropWhile is_digit t"
  have s: "s = pre @ t" and t: "t = whole @ r"
    by (simp_all add: pre_def t_def whole_def r_def)
  have pre: "list_all (\<lambda>c. \<not> is_digit c) pre"
    unfolding pre_def list_all_iff by (auto dest: set_takeWhileD)
  have tne: "t \<noteq> []"
    using assms by (auto simp: first_number_def t_def Let_def split: if_splits)
  then have "is_digit (hd t)"
    using hd_dropWhile [of "\<lambda>c. \<not> is_digit c" s] by (simp add: t_def)
  then have wne: "whole \<noteq> []"
    using tne by (cases t) (auto simp: whole_def)
  have wd: "list_all is_digit whole"
    unfolding whole_def list_all_iff by (auto dest: set_takeWhileD)
  then have nopoint: "CHR ''.'' \<notin> set whole"
    using not_digit_point by (auto simp: list_all_iff)
  have nr: "\<not> starts_with_digit r"
    unfolding r_def by (rule not_starts_dropWhile)
  define frac where "frac = takeWhile is_digit (drop 1 r)"
  have fn: "first_number s =
      (if take 1 r = ''.'' \<and> frac \<noteq> [] then Some (whole @ ''.'' @ frac) else Some whole)"
    unfolding first_number_def Let_def t_def [symmetric] whole_def [symmetric]
      r_def [symmetric] frac_def [symmetric]
    using tne by simp
  show ?thesis
  proof (cases "take 1 r = ''.'' \<and> frac \<noteq> []")
    case True
    have fd: "list_all is_digit frac"
      unfolding frac_def list_all_iff by (auto dest: set_takeWhileD)
    have fne: "frac \<noteq> []" using True by simp
    have mm: "m = whole @ ''.'' @ frac" using fn assms True by simp
    have "r = take 1 r @ drop 1 r" by simp
    also have "drop 1 r = frac @ dropWhile is_digit (drop 1 r)" by (simp add: frac_def)
    finally have "r = ''.'' @ frac @ dropWhile is_digit (drop 1 r)" using True by simp
    then have sm: "s = pre @ m @ dropWhile is_digit (drop 1 r)"
      using s t mm by simp
    show ?thesis
    proof (rule leading_numberI [OF _ sm pre])
      show "is_decimal m" unfolding mm by (rule is_decimal_point [OF wd wne fd fne])
      show "\<not> starts_with_digit (dropWhile is_digit (drop 1 r))" by (rule not_starts_dropWhile)
      show "CHR ''.'' \<in> set m \<or>
          \<not> (\<exists>post'. dropWhile is_digit (drop 1 r) = CHR ''.'' # post' \<and> starts_with_digit post')"
        by (simp add: mm)
    qed
  next
    case False
    then have mm: "m = whole" using fn assms by (auto split: if_splits)
    have sm: "s = pre @ m @ r" using s t mm by simp
    show ?thesis
    proof (rule leading_numberI [OF _ sm pre nr])
      show "is_decimal m" unfolding mm by (rule is_decimal_digits [OF wd wne])
      have "\<not> starts_with_digit post'" if "r = CHR ''.'' # post'" for post'
      proof -
        from that False have "takeWhile is_digit post' = []" by (simp add: frac_def)
        then show ?thesis by (rule takeWhile_Nil_starts)
      qed
      then show "CHR ''.'' \<in> set m \<or> \<not> (\<exists>post'. r = CHR ''.'' # post' \<and> starts_with_digit post')"
        by blast
    qed
  qed
qed

lemma clean_rupee_field:
  "first_number (replace '','' '''' (replace source_glyph '''' (rupee @ ''1,234.5Cr''))) =
     Some ''1234.5''"
  by (simp add: first_number_def is_digit_def rupee_def source_glyph_def replace.simps)

subsection \<open>Claims on the loader\<close>

text \<open>
  C4, as amended. \<^verbatim>\<open>load_data\<close> fails, reporting the error and returning the empty
  frame, exactly when the file cannot be read, one of the columns
  \<^verbatim>\<open>Today's Date\<close>, \<^verbatim>\<open>%chng\<close>, \<^verbatim>\<open>Market Cap\<close>, \<^verbatim>\<open>Symbol\<close> is absent, or the dates
  cannot be parsed. When it succeeds, the percent change, the ratio columns that are
  present and the market capitalisation hold the cleaned cells, and a cell whose text
  cannot be parsed (or has no number in it) is missing, whatever the parser is; it is
  never set to zero.
\<close>

theorem load_data_fails_exactly:
  "(fst (load_data pd file) \<noteq> None) =
     (read_csv pd file = None \<or>
      (\<exists>df. read_csv pd file = Some df \<and>
         ((\<exists>c \<in> set required_columns. get_column df c = None) \<or>
          (\<exists>dates. get_column df ''Today's Date'' = Some dates \<and> to_datetime pd dates = None)))) \<and>
   (fst (load_data pd file) = None \<or> snd (load_data pd file) = []) \<and>
   (\<forall>df. read_csv pd file = Some df \<and> fst (load_data pd file) = None \<longrightarrow>
      get_column (snd (load_data pd file)) ''%chng'' =
        map_option (map (clean_chng pd)) (get_column df ''%chng'') \<and>
      get_column (snd (load_data pd file)) ''Market Cap'' =
        map_option (map (clean_market_cap pd)) (get_column df ''Market Cap'') \<and>
      (\<forall>col \<in> set numeric_columns.
         get_column (snd (load_data pd file)) col =
           map_option (map (clean_ratio pd)) (get_column df col))) \<and>
   (\<forall>c. to_numeric pd (strip (replace ''%'' '''' (astype_str pd c))) = None \<longrightarrow>
      clean_chng pd c = NaN) \<and>
   (\<forall>c. to_numeric pd (replace source_glyph '''' (replace ''%'' '''' (astype_str pd c))) = None \<longrightarrow>
      clean_ratio pd c = NaN) \<and>
   (\<forall>c. first_number (replace '','' '''' (replace source_glyph '''' (astype_str pd c))) = None \<longrightarrow>
      clean_market_cap pd c = NaN)"
proof -
  have "\<forall>df. read_csv pd file = Some df \<and> fst (load_data pd file) = None \<longrightarrow>
      get_column (snd (load_data pd file)) ''%chng'' =
        map_option (map (clean_chng pd)) (get_column df ''%chng'') \<and>
      get_column (snd (load_data pd file)) ''Market Cap'' =
        map_option (map (clean_market_cap pd)) (get_column df ''Market Cap'') \<and>
      (\<forall>col \<in> set numeric_columns.
         get_column (snd (load_data pd file)) col =
           map_option (map (clean_ratio pd)) (get_column df col))"
    using load_data_columns by blast
  moreover have "\<forall>c. to_numeric pd (strip (replace ''%'' '''' (astype_str pd c))) = None \<longrightarrow>
      clean_chng pd c = NaN"
    by (simp add: clean_chng_def numeric_cell_missing)
  moreover have "\<forall>c. to_numeric pd (replace source_glyph '''' (replace ''%'' '''' (astype_str pd c))) = None \<longrightarrow>
      clean_ratio pd c = NaN"
    by (simp add: clean_ratio_def numeric_cell_missing)
  moreover have "\<forall>c. first_number (replace '','' '''' (replace source_glyph '''' (astype_str pd c))) = None \<longrightarrow>
      clean_market_cap pd c = NaN"
    by (simp add: clean_market_cap_def)
  ultimately show ?thesis
    using load_data_fails_iff [of pd "file"] load_data_failure_empty [of pd "file"] by blast
qed

text \<open>
  The theorem at the example file, whose second percent change is \<^verbatim>\<open>n/a\<close>, and at a
  file that cannot be read.
\<close>

theorem load_data_fails_exactly_witness:
  "read_csv example_pandas ''financial_metrics.csv'' = Some example_csv \<and>
   fst (load_data example_pandas ''financial_metrics.csv'') = None \<and>
   to_numeric example_pandas (strip (replace ''%'' '''' (astype_str example_pandas (Text ''n/a'')))) = None \<and>
   clean_chng example_pandas (Text ''n/a'') = NaN \<and>
   get_column (snd (load_data example_pandas ''financial_metrics.csv'')) ''%chng'' =
     Some [Number (3 / 2), NaN] \<and>
   read_csv example_pandas ''missing.csv'' = None \<and>
   load_data example_pandas ''missing.csv'' = (Some ReadError, [])"
proof -
  note t = load_data_fails_exactly [of example_pandas "''financial_metrics.csv''"]
  have r: "read_csv example_pandas ''financial_metrics.csv'' = Some example_csv"
    by (simp add: example_pandas_def)
  have ok: "fst (load_data example_pandas ''financial_metrics.csv'') = None"
    by (simp add: example_load)
  have n: "to_numeric example_pandas (strip (replace ''%'' '''' (astype_str example_pandas (Text ''n/a'')))) = None"
    by (simp add: example_pandas_def astype_str_def strip_def is_space_def plain_decimal_def
        is_decimal_def is_digit_def replace.simps)
  from t n have c: "clean_chng example_pandas (Text ''n/a'') = NaN" by blast
  from t r ok have "get_column (snd (load_data example_pandas ''financial_metrics.csv'')) ''%chng'' =
      map_option (map (clean_chng example_pandas)) (get_column example_csv ''%chng'')" by blast
  then have g: "get_column (snd (load_data example_pandas ''financial_metrics.csv'')) ''%chng'' =
     Some [Number (3 / 2), NaN]"
    by (simp add: example_load get_column_def)
  have m: "read_csv example_pandas ''missing.csv'' = None"
    by (simp add: example_pandas_def)
  have f: "load_data example_pandas ''missing.csv'' = (Some ReadError, [])"
    by (simp add: load_data_def m failed_def replace.simps)
  from r ok n c g m f show ?thesis by blast
qed

text \<open>
  The claim as the specification states it fails for the columns that the specification
  requires and the loader does not: the ratio columns are behind the guard
  \<^verbatim>\<open>if col in df.columns\<close>, and \<^verbatim>\<open>LTP\<close>, \<^verbatim>\<open>Sector\<close>, \<^verbatim>\<open>Industry\<close> and \<^verbatim>\<open>About\<close> are
  not touched by the loader. The example file has neither \<^verbatim>\<open>ROE\<close> nor \<^verbatim>\<open>LTP\<close> and
  loads without error.
\<close>

theorem load_data_optional_column_counterexample:
  "''ROE'' \<in> set spec_required_columns \<and> ''LTP'' \<in> set spec_required_columns \<and>
   read_csv example_pandas ''financial_metrics.csv'' = Some example_csv \<and>
   get_column example_csv ''ROE'' = None \<and> get_column example_csv ''LTP'' = None \<and>
   fst (load_data example_pandas ''financial_metrics.csv'') = None"
  by (simp add: example_load spec_required_columns_def)
     (simp add: example_pandas_def example_csv_def get_column_def)

text \<open>
  C8. The specification has the loader strip the currency glyph, the rupee sign, from
  the market capitalisation before it extracts the leading number. The code strips the
  glyph of its literal, which is not the rupee sign, so that the rupee sign stays in
  the text. In front of the number it does no harm, since the search passes over it:
  the text made of the rupee sign and \<^verbatim>\<open>1,234.5Cr\<close> gives 1234.5, and a text without a
  digit gives the missing value, as the specification says. Between two digits it ends
  the match: \<^verbatim>\<open>12\<close>, the rupee sign and \<^verbatim>\<open>34\<close> give 12, where the specification's
  wording gives 1234, which is also what the code gives when the seven bytes of its own
  literal stand in that place.
\<close>

theorem clean_market_cap_keeps_rupee:
  "clean_market_cap pd (Text (''12'' @ rupee @ ''34'')) = numeric_cell pd ''12'' \<and>
   parseMarketCap_spec pd (''12'' @ rupee @ ''34'') = numeric_cell pd ''1234'' \<and>
   clean_market_cap pd
     (Text (''12'' @ [CHR 0xE2, CHR 0x80, CHR 0x9A, CHR 0xC3, CHR 0x87, CHR 0xCF, CHR 0x80] @ ''34'')) =
     numeric_cell pd ''1234'' \<and>
   clean_market_cap example_pandas (Text (''12'' @ rupee @ ''34'')) = Number 12 \<and>
   parseMarketCap_spec example_pandas (''12'' @ rupee @ ''34'') = Number 1234 \<and>
   clean_market_cap example_pandas (Text (rupee @ ''1,234.5Cr'')) = Number (2469 / 2) \<and>
   clean_market_cap example_pandas (Text ''unknown'') = NaN"
proof -
  have 1: "first_number (replace '','' '''' (replace source_glyph '''' (''12'' @ rupee @ ''34''))) =
      Some ''12''"
    by (simp add: first_number_def is_digit_def rupee_def source_glyph_def replace.simps)
  have 2: "first_number (replace '','' '''' (replace rupee '''' (''12'' @ rupee @ ''34''))) =
      Some ''1234''"
    by (simp add: first_number_def is_digit_def rupee_def replace.simps)
  have 3: "first_number (replace '','' '''' (replace source_glyph ''''
      (''12'' @ [CHR 0xE2, CHR 0x80, CHR 0x9A, CHR 0xC3, CHR 0x87, CHR 0xCF, CHR 0x80] @ ''34''))) =
      Some ''1234''"
    by (simp add: first_number_def is_digit_def source_glyph_def replace.simps)
  have 4: "first_number (replace '','' '''' (replace source_glyph '''' ''unknown'')) = None"
    by (simp add: first_number_def is_digit_def source_glyph_def replace.simps)
  have n: "numeric_cell example_pandas ''12'' = Number 12"
    "numeric_cell example_pandas ''1234'' = Number 1234"
    "numeric_cell example_pandas ''1234.5'' = Number (2469 / 2)"
    by (simp_all add: numeric_cell_def example_pandas_def plain_decimal_def is_decimal_def
        decimal_value_def is_digit_def digits_value_def digit_value_def)
  have a: "clean_market_cap pd (Text (''12'' @ rupee @ ''34'')) = numeric_cell pd ''12''" for pd
    by (simp only: clean_market_cap_def astype_str_def cell.case 1 option.case)
  have b: "parseMarketCap_spec pd (''12'' @ rupee @ ''34'') = numeric_cell pd ''1234''" for pd
    by (simp only: parseMarketCap_spec_def 2 option.case)
  have c: "clean_market_cap pd
     (Text (''12'' @ [CHR 0xE2, CHR 0x80, CHR 0x9A, CHR 0xC3, CHR 0x87, CHR 0xCF, CHR 0x80] @ ''34'')) =
     numeric_cell pd ''1234''" for pd
    by (simp only: clean_market_cap_def astype_str_def cell.case 3 option.case)
  have d: "clean_market_cap example_pandas (Text (rupee @ ''1,234.5Cr'')) = Number (2469 / 2)"
    by (simp only: clean_market_cap_def astype_str_def cell.case clean_rupee_field option.case n)
  have e: "clean_market_cap example_pandas (Text ''unknown'') = NaN"
    by (simp only: clean_market_cap_def astype_str_def cell.case 4 option.case)
  show ?thesis
    by (simp only: a b c d e n simp_thms)
qed

subsection \<open>Claim on the formatter\<close>

text \<open>
  C3. The specification gives the results of \<^verbatim>\<open>format_number\<close> with the rupee sign in
  front. The scaling, the two decimals, the thousands separators and \<^verbatim>\<open>N/A\<close> are as
  it says, but the prefix that the code writes is the glyph of its literal, which is
  not the rupee sign: \<^verbatim>\<open>format_number(1_000_000_000)\<close> is that glyph followed by
  \<^verbatim>\<open>1.00B\<close>.
\<close>

theorem format_number_examples:
  "format_number float (Num 1000000000) = source_glyph @ ''1.00B'' \<and>
   format_number float (Num 50000000) = source_glyph @ ''5.00Cr'' \<and>
   format_number float (Num 200000) = source_glyph @ ''2.00L'' \<and>
   format_number float (Num 500) = source_glyph @ ''500.00'' \<and>
   format_number float (Num 12345) = source_glyph @ ''12,345.00'' \<and>
   format_number float Missing = ''N/A'' \<and>
   format_number float (Num 1000000000) \<noteq> rupee @ ''1.00B''"
  by (simp add: format_number_def format_2f_def round_half_even_def digit_char_def)
     (simp add: source_glyph_def rupee_def)

end
